theory Spec2Isabelle
  imports Main "HOL-Library.Sublist"
begin

section \<open>JavaScript values and strings\<close>

text \<open>
  The handlers of \<^verbatim>\<open>src/server/app.js\<close> work on parsed JSON (request bodies, items of the
  metadata table, response bodies).  A JavaScript value is one of the JSON shapes or
  \<^verbatim>\<open>undefined\<close>; an object is an association list, read through \<open>get_prop\<close>, which
  yields \<^verbatim>\<open>undefined\<close> for an absent property.  Numbers are the integral ones.

  A string is a sequence of code units below 256 (the Latin-1 range), one \<^typ>\<open>char\<close> each.
\<close>

datatype jsval =
    JUndefined
  | JNull
  | JBool bool
  | JNum int
  | JStr string
  | JArr "jsval list"
  | JObj "(string \<times> jsval) list"

type_synonym jsobj = "(string \<times> jsval) list"

definition get_prop :: "jsobj \<Rightarrow> string \<Rightarrow> jsval" where
  "get_prop obj name = (case map_of obj name of None \<Rightarrow> JUndefined | Some v \<Rightarrow> v)"

text \<open>Truthiness, and the operator \<^verbatim>\<open>a || b\<close>, which yields \<open>a\<close> when it is truthy.\<close>

fun truthy :: "jsval \<Rightarrow> bool" where
  "truthy JUndefined = False"
| "truthy JNull = False"
| "truthy (JBool b) = b"
| "truthy (JNum n) = (n \<noteq> 0)"
| "truthy (JStr s) = (s \<noteq> [])"
| "truthy (JArr xs) = True"
| "truthy (JObj kvs) = True"

definition js_or :: "jsval \<Rightarrow> jsval \<Rightarrow> jsval" where
  "js_or a b = (if truthy a then a else b)"

text \<open>
  White space as \<^verbatim>\<open>String.prototype.trim\<close> and the regular expression class \<^verbatim>\<open>\s\<close> see it:
  TAB, LF, VT, FF, CR, SPACE and NO-BREAK SPACE are the ones below 256.
\<close>

definition is_space :: "char \<Rightarrow> bool" where
  "is_space c = ((of_char c :: nat) \<in> {9, 10, 11, 12, 13, 32, 160})"

definition trim :: "string \<Rightarrow> string" where
  "trim s = rev (dropWhile is_space (rev (dropWhile is_space s)))"

text \<open>
  \<^verbatim>\<open>String.prototype.toLowerCase\<close>: A to Z, and the Latin-1 capitals U+00C0 to U+00DE
  except the multiplication sign U+00D7, move up by 32; every other code unit stays.
\<close>

definition lower_char :: "char \<Rightarrow> char" where
  "lower_char c =
     (let n = (of_char c :: nat)
      in if (65 \<le> n \<and> n \<le> 90) \<or> (192 \<le> n \<and> n \<le> 222 \<and> n \<noteq> 215)
         then char_of (n + 32) else c)"

definition toLowerCase :: "string \<Rightarrow> string" where
  "toLowerCase s = map lower_char s"

text \<open>
  \<^verbatim>\<open>s.includes(t)\<close> looks for \<open>t\<close> at every position of \<open>s\<close>, from the left.
\<close>

fun str_includes :: "string \<Rightarrow> string \<Rightarrow> bool" where
  "str_includes [] t = (t = [])"
| "str_includes (c # cs) t = (prefix t (c # cs) \<or> str_includes cs t)"

text \<open>
  The decimal numeral of a non-negative integer, as a template literal renders
  \<^verbatim>\<open>Date.now()\<close>.
\<close>

fun decimal :: "nat \<Rightarrow> string" where
  "decimal n =
     (if n < 10 then [char_of (48 + n)]
      else decimal (n div 10) @ [char_of (48 + n mod 10)])"

declare decimal.simps [simp del]

definition is_digit :: "char \<Rightarrow> bool" where
  "is_digit c = (48 \<le> (of_char c :: nat) \<and> (of_char c :: nat) \<le> 57)"

text \<open>
  \<^verbatim>\<open>fileName.replace(/\s+/g, '-')\<close>: scanning from the left, a white-space character
  starts a match that extends over the whole run of white space after it (the quantifier is
  greedy); the match is replaced by one hyphen and the scan goes on behind it.  Any other
  character is copied.
\<close>

function replace_ws_runs :: "string \<Rightarrow> string" where
  "replace_ws_runs [] = []"
| "replace_ws_runs (c # cs) =
     (if is_space c then CHR ''-'' # replace_ws_runs (dropWhile is_space cs)
      else c # replace_ws_runs cs)"
  by pat_completeness auto
termination
  by (relation "measure length") (auto simp: less_Suc_eq_le length_dropWhile_le)


definition upload_key :: "nat \<Rightarrow> string \<Rightarrow> string" where
  "upload_key now fileName = ''images/'' @ decimal now @ ''-'' @ replace_ws_runs fileName"

text \<open>
  String conversion of a value interpolated into a template literal.  An array joins the
  conversions of its elements with commas, \<^verbatim>\<open>null\<close> and \<^verbatim>\<open>undefined\<close> elements giving
  the empty string.
\<close>

definition decimal_int :: "int \<Rightarrow> string" where
  "decimal_int i = (if i < 0 then CHR ''-'' # decimal (nat (- i)) else decimal (nat i))"

fun join_comma :: "string list \<Rightarrow> string" where
  "join_comma [] = []"
| "join_comma [s] = s"
| "join_comma (s # t # ss) = s @ '','' @ join_comma (t # ss)"

fun js_toString :: "jsval \<Rightarrow> string" where
  "js_toString JUndefined = ''undefined''"
| "js_toString JNull = ''null''"
| "js_toString (JBool b) = (if b then ''true'' else ''false'')"
| "js_toString (JNum n) = decimal_int n"
| "js_toString (JStr s) = s"
| "js_toString (JArr xs) =
     join_comma (map (\<lambda>x. if x = JUndefined \<or> x = JNull then [] else js_toString x) xs)"
| "js_toString (JObj kvs) = ''[object Object]''"

section \<open>Request validation\<close>

text \<open>
  The chains of express-validator used by the handlers: \<^verbatim>\<open>body(f).isString().notEmpty()\<close>,
  \<^verbatim>\<open>body(f).isString().optional()\<close> and \<^verbatim>\<open>body(f).isArray().optional()\<close>.  A chain
  reads one property of the body; \<^verbatim>\<open>optional()\<close> skips the chain when the property is
  \<^verbatim>\<open>undefined\<close>; every validator that rejects the value adds one entry to the error array.
  \<^verbatim>\<open>isString\<close> accepts strings only, \<^verbatim>\<open>isArray\<close> arrays only, and \<^verbatim>\<open>notEmpty\<close> rejects
  the values whose string rendering is empty.  In this program \<^verbatim>\<open>notEmpty\<close> always follows
  \<^verbatim>\<open>isString\<close>, so its verdict on a value that is not a string never decides whether the
  error array is empty.
\<close>

datatype validator = IsString | NotEmpty | IsArray

fun passes :: "validator \<Rightarrow> jsval \<Rightarrow> bool" where
  "passes IsString v = (case v of JStr s \<Rightarrow> True | _ \<Rightarrow> False)"
| "passes IsArray v = (case v of JArr xs \<Rightarrow> True | _ \<Rightarrow> False)"
| "passes NotEmpty v =
     (case v of JStr s \<Rightarrow> s \<noteq> [] | JUndefined \<Rightarrow> False | JNull \<Rightarrow> False | _ \<Rightarrow> True)"

type_synonym field_chain = "string \<times> validator list \<times> bool"

definition field_error :: "string \<Rightarrow> jsval \<Rightarrow> jsval" where
  "field_error name v =
     JObj [(''type'', JStr ''field''), (''value'', v), (''msg'', JStr ''Invalid value''),
           (''path'', JStr name), (''location'', JStr ''body'')]"

fun run_chain :: "jsobj \<Rightarrow> field_chain \<Rightarrow> jsval list" where
  "run_chain b (name, validators, optional) =
     (let v = get_prop b name
      in if optional \<and> v = JUndefined then []
         else map (\<lambda>d. field_error name v) (filter (\<lambda>d. \<not> passes d v) validators))"

definition validationResult :: "field_chain list \<Rightarrow> jsobj \<Rightarrow> jsval list" where
  "validationResult cs b = concat (map (run_chain b) cs)"

section \<open>The external services\<close>

text \<open>
  The object store and the metadata table are not part of the program.  They are modelled
  by a world: the set of keys that hold an object, the items of the table in the order a
  scan returns them, and the trace of the calls the handlers have issued.  The table has
  the primary key \<^verbatim>\<open>imageId\<close> (the key \<^verbatim>\<open>delete-image\<close> addresses an item by): a put
  replaces the item that has the same \<^verbatim>\<open>imageId\<close> or adds a new one, a delete removes it.
  A scan returns one page: the first \<open>scan_page\<close> items of the table, all of them only
  when the table is no longer than that.  How many items the page holds is decided by the
  service, as is whether a call raises, so both are parameters (\<open>scan_page\<close>,
  \<open>send_raises\<close>, \<open>presigned_post\<close>); a call that raises changes nothing.  The object store holds objects under string keys only, so a
  delete for any other value removes nothing.
\<close>

datatype error = TypeError | MarshallError | ServiceError

datatype condition =
    ContentLengthRange nat nat
  | StartsWith string string
  | Exactly string string

record presigned_post_options =
  Bucket :: string
  Key :: string
  Fields :: "(string \<times> string) list"
  Conditions :: "condition list"
  Expires :: nat

datatype call =
    CreatePresignedPost presigned_post_options
  | PutItemCommand string jsobj
  | ScanCommand string
  | DeleteObjectCommand string jsval
  | DeleteItemCommand string jsobj

record world =
  objects :: "string set"
  table :: "jsobj list"
  calls :: "call list"

record services =
  presigned_post :: "presigned_post_options \<Rightarrow> error + jsval \<times> jsval"
  send_raises :: "call \<Rightarrow> bool"
  scan_page :: nat

fun put_item :: "jsobj \<Rightarrow> jsobj list \<Rightarrow> jsobj list" where
  "put_item it [] = [it]"
| "put_item it (x # xs) =
     (if get_prop x ''imageId'' = get_prop it ''imageId'' then it # xs
      else x # put_item it xs)"

definition delete_item :: "jsval \<Rightarrow> jsobj list \<Rightarrow> jsobj list" where
  "delete_item key tbl = filter (\<lambda>x. get_prop x ''imageId'' \<noteq> key) tbl"

definition delete_object :: "jsval \<Rightarrow> string set \<Rightarrow> string set" where
  "delete_object key objs = (case key of JStr k \<Rightarrow> objs - {k} | _ \<Rightarrow> objs)"

text \<open>
  \<^verbatim>\<open>marshall\<close> of the DynamoDB utilities turns a value into the table's attribute format
  and \<^verbatim>\<open>unmarshall\<close> turns it back; the table of the model holds the values themselves.
  \<^verbatim>\<open>marshall\<close> raises on \<^verbatim>\<open>undefined\<close> and on a number outside the safe integer range.
\<close>

fun marshallable :: "jsval \<Rightarrow> bool" where
  "marshallable JUndefined = False"
| "marshallable JNull = True"
| "marshallable (JBool b) = True"
| "marshallable (JNum n) = (- 9007199254740991 \<le> n \<and> n \<le> 9007199254740991)"
| "marshallable (JStr s) = True"
| "marshallable (JArr xs) = list_all marshallable xs"
| "marshallable (JObj kvs) = list_all marshallable (map snd kvs)"


text \<open>
  \<^verbatim>\<open>unmarshall\<close> turns a stored number outside the safe integer range into a
  \<^verbatim>\<open>BigInt\<close>; in the model it stays the number it is.  \<^verbatim>\<open>res.json\<close> serialises its
  argument with \<^verbatim>\<open>JSON.stringify\<close>, which leaves out \<^verbatim>\<open>undefined\<close> and raises on a
  \<^verbatim>\<open>BigInt\<close>.
\<close>

fun json_serializable :: "jsval \<Rightarrow> bool" where
  "json_serializable JUndefined = True"
| "json_serializable JNull = True"
| "json_serializable (JBool b) = True"
| "json_serializable (JNum n) = (- 9007199254740991 \<le> n \<and> n \<le> 9007199254740991)"
| "json_serializable (JStr s) = True"
| "json_serializable (JArr xs) = list_all json_serializable xs"
| "json_serializable (JObj kvs) = list_all json_serializable (map snd kvs)"

section \<open>The request handlers\<close>

text \<open>
  The environment variables the handlers and the two service clients read, the parts of a
  request the handlers read (\<^verbatim>\<open>req.body\<close>, \<^verbatim>\<open>req.query.q\<close>, \<^verbatim>\<open>req.ip\<close>), and a response:
  its status and the value given to \<^verbatim>\<open>res.json\<close>.  \<^verbatim>\<open>Date.now()\<close> is the parameter \<open>now\<close>.
  Each handler runs in \<^verbatim>\<open>try\<close>/\<^verbatim>\<open>catch\<close>: whatever is raised becomes the status 500 with a
  fixed message.
\<close>

record config =
  S3_BUCKET_NAME :: string
  AWS_REGION :: string
  DYNAMODB_TABLE_NAME :: string
  AWS_ACCESS_KEY_ID :: string
  AWS_SECRET_ACCESS_KEY :: string

record request =
  req_body :: jsobj
  req_q :: jsval
  req_ip :: jsval

record response =
  status :: nat
  json :: jsval

definition validation_failure :: "jsval list \<Rightarrow> response" where
  "validation_failure errors = \<lparr>status = 400, json = JObj [(''errors'', JArr errors)]\<rparr>"

definition internal_error :: "string \<Rightarrow> response" where
  "internal_error msg = \<lparr>status = 500, json = JObj [(''error'', JStr msg)]\<rparr>"

definition issue :: "call \<Rightarrow> world \<Rightarrow> world" where
  "issue c w = w\<lparr>calls := calls w @ [c]\<rparr>"

subsection \<open>POST /api/generate-presigned-url\<close>

text \<open>
  The key is built by \<open>upload_key\<close> from \<^verbatim>\<open>Date.now()\<close> and the file name.  Calling
  \<^verbatim>\<open>replace\<close> on a file name that is not a string would raise; validation has excluded
  that, and the last branch of the \<^verbatim>\<open>case\<close> records what the \<^verbatim>\<open>catch\<close> would answer.
  The options of \<^verbatim>\<open>createPresignedPost\<close> are the four the handler passes; it passes no
  \<^verbatim>\<open>Fields\<close>.
\<close>

definition post_options :: "config \<Rightarrow> string \<Rightarrow> presigned_post_options" where
  "post_options cfg key =
     \<lparr>Bucket = S3_BUCKET_NAME cfg, Key = key, Fields = [],
      Conditions = [ContentLengthRange 0 10485760], Expires = 300\<rparr>"

definition generate_presigned_url ::
  "config \<Rightarrow> services \<Rightarrow> nat \<Rightarrow> request \<Rightarrow> world \<Rightarrow> response \<times> world" where
  "generate_presigned_url cfg svc now req w =
     (let errors = validationResult
            [(''fileName'', [IsString, NotEmpty], False),
             (''fileType'', [IsString, NotEmpty], False)] (req_body req)
      in if errors \<noteq> [] then (validation_failure errors, w)
         else
           (case get_prop (req_body req) ''fileName'' of
              JStr fileName \<Rightarrow>
                (let key = upload_key now fileName;
                     w' = issue (CreatePresignedPost (post_options cfg key)) w
                 in case presigned_post svc (post_options cfg key) of
                      Inl e \<Rightarrow> (internal_error ''Failed to generate upload URL'', w')
                    | Inr (url, form_fields) \<Rightarrow>
                        (\<lparr>status = 200,
                          json = JObj [(''url'', url), (''fields'', form_fields), (''key'', JStr key)]\<rparr>,
                         w'))
            | _ \<Rightarrow> (internal_error ''Failed to generate upload URL'', w)))"

subsection \<open>POST /api/save-metadata\<close>

text \<open>
  The item is marshalled when the put command is built, before it is sent: an item that
  cannot be marshalled is answered with the status 500 and no call is issued.
\<close>

definition metadata_item :: "nat \<Rightarrow> request \<Rightarrow> jsobj" where
  "metadata_item now req =
     [(''imageId'', get_prop (req_body req) ''key''),
      (''caption'', js_or (get_prop (req_body req) ''caption'') (JStr [])),
      (''tags'', js_or (get_prop (req_body req) ''tags'') (JArr [])),
      (''uploadTime'', JNum (int now)),
      (''uploaderId'', req_ip req)]"

definition save_metadata ::
  "config \<Rightarrow> services \<Rightarrow> nat \<Rightarrow> request \<Rightarrow> world \<Rightarrow> response \<times> world" where
  "save_metadata cfg svc now req w =
     (let errors = validationResult
            [(''key'', [IsString, NotEmpty], False),
             (''caption'', [IsString], True),
             (''tags'', [IsArray], True)] (req_body req)
      in if errors \<noteq> [] then (validation_failure errors, w)
         else
           (let item = metadata_item now req
            in if \<not> marshallable (JObj item)
               then (internal_error ''Failed to save metadata'', w)
               else
                 (let command = PutItemCommand (DYNAMODB_TABLE_NAME cfg) item;
                      w' = issue command w
                  in if send_raises svc command
                     then (internal_error ''Failed to save metadata'', w')
                     else
                       (\<lparr>status = 200,
                         json = JObj [(''success'', JBool True),
                                      (''message'', JStr ''Metadata saved'')]\<rparr>,
                        w'\<lparr>table := put_item item (table w')\<rparr>))))"

subsection \<open>GET /api/search\<close>

definition result_object :: "config \<Rightarrow> jsobj \<Rightarrow> jsval" where
  "result_object cfg item =
     JObj [(''key'', get_prop item ''imageId''),
           (''caption'', get_prop item ''caption''),
           (''tags'', get_prop item ''tags''),
           (''uploadTime'', get_prop item ''uploadTime''),
           (''presignedGetUrl'',
              JStr (''https://'' @ S3_BUCKET_NAME cfg @ ''.s3.'' @ AWS_REGION cfg
                    @ ''.amazonaws.com/'' @ js_toString (get_prop item ''imageId'')))]"

text \<open>
  The filter callback.  \<^verbatim>\<open>a && b\<close> yields \<open>a\<close> when \<open>a\<close> is falsy and evaluates \<open>b\<close>
  otherwise; calling \<^verbatim>\<open>toLowerCase\<close> on a truthy value that is not a string, or
  \<^verbatim>\<open>some\<close> on one that is not an array, raises a \<^verbatim>\<open>TypeError\<close>.  \<^verbatim>\<open>some\<close> stops at the
  first tag for which the callback is truthy.
\<close>

definition caption_match :: "string \<Rightarrow> jsobj \<Rightarrow> error + bool" where
  "caption_match searchTerm item =
     (let c = get_prop item ''caption''
      in if \<not> truthy c then Inr False
         else (case c of
                 JStr s \<Rightarrow> Inr (str_includes (toLowerCase s) searchTerm)
               | _ \<Rightarrow> Inl TypeError))"

fun tags_some :: "string \<Rightarrow> jsval list \<Rightarrow> error + bool" where
  "tags_some searchTerm [] = Inr False"
| "tags_some searchTerm (tag # tags) =
     (if \<not> truthy tag then tags_some searchTerm tags
      else (case tag of
              JStr s \<Rightarrow>
                (if str_includes (toLowerCase s) searchTerm then Inr True
                 else tags_some searchTerm tags)
            | _ \<Rightarrow> Inl TypeError))"

definition tags_match :: "string \<Rightarrow> jsobj \<Rightarrow> error + bool" where
  "tags_match searchTerm item =
     (let t = get_prop item ''tags''
      in if \<not> truthy t then Inr False
         else (case t of
                 JArr tags \<Rightarrow> tags_some searchTerm tags
               | _ \<Rightarrow> Inl TypeError))"

definition item_matches :: "string \<Rightarrow> jsobj \<Rightarrow> error + bool" where
  "item_matches searchTerm item =
     (case caption_match searchTerm item of
        Inl e \<Rightarrow> Inl e
      | Inr captionMatch \<Rightarrow>
          (case tags_match searchTerm item of
             Inl e \<Rightarrow> Inl e
           | Inr tagsMatch \<Rightarrow> Inr (captionMatch \<or> tagsMatch)))"

fun filter_items :: "string \<Rightarrow> jsobj list \<Rightarrow> error + jsobj list" where
  "filter_items searchTerm [] = Inr []"
| "filter_items searchTerm (item # items) =
     (case item_matches searchTerm item of
        Inl e \<Rightarrow> Inl e
      | Inr keep \<Rightarrow>
          (case filter_items searchTerm items of
             Inl e \<Rightarrow> Inl e
           | Inr filteredItems \<Rightarrow> Inr (if keep then item # filteredItems else filteredItems)))"

text \<open>
  The handler sends one scan and reads the items of its answer; it asks for no further
  page.  Both branches end in \<^verbatim>\<open>res.json\<close> inside the \<^verbatim>\<open>try\<close>, so a list that cannot be
  serialised is answered with the status 500 as well.
\<close>

definition send_results :: "jsval list \<Rightarrow> response" where
  "send_results imagesWithUrls =
     (if json_serializable (JArr imagesWithUrls)
      then \<lparr>status = 200, json = JArr imagesWithUrls\<rparr>
      else internal_error ''Search failed'')"

definition search :: "config \<Rightarrow> services \<Rightarrow> request \<Rightarrow> world \<Rightarrow> response \<times> world" where
  "search cfg svc req w =
     (let q = req_q req;
          scanCommand = ScanCommand (DYNAMODB_TABLE_NAME cfg);
          w' = issue scanCommand w
      in if send_raises svc scanCommand then (internal_error ''Search failed'', w')
         else
           (let items = take (scan_page svc) (table w')
            in if \<not> truthy q
               then (send_results (map (result_object cfg) items), w')
               else (case q of
                       JStr s \<Rightarrow>
                         (if trim s = []
                          then (send_results (map (result_object cfg) items), w')
                          else (case filter_items (trim (toLowerCase s)) items of
                                  Inl e \<Rightarrow> (internal_error ''Search failed'', w')
                                | Inr filteredItems \<Rightarrow>
                                    (send_results (map (result_object cfg) filteredItems), w')))
                     | _ \<Rightarrow> (internal_error ''Search failed'', w'))))"

subsection \<open>POST /api/delete-image\<close>

text \<open>
  The object is deleted first.  The key of the table delete is marshalled after that, when
  the second command is built.
\<close>

definition delete_image :: "config \<Rightarrow> services \<Rightarrow> request \<Rightarrow> world \<Rightarrow> response \<times> world" where
  "delete_image cfg svc req w =
     (let errors = validationResult [(''key'', [IsString, NotEmpty], False)] (req_body req)
      in if errors \<noteq> [] then (validation_failure errors, w)
         else
           (let key = get_prop (req_body req) ''key'';
                deleteObject = DeleteObjectCommand (S3_BUCKET_NAME cfg) key;
                w1 = issue deleteObject w
            in if send_raises svc deleteObject
               then (internal_error ''Failed to delete image'', w1)
               else
                 (let w2 = w1\<lparr>objects := delete_object key (objects w1)\<rparr>
                  in if \<not> marshallable (JObj [(''imageId'', key)])
                     then (internal_error ''Failed to delete image'', w2)
                     else
                       (let deleteItem =
                              DeleteItemCommand (DYNAMODB_TABLE_NAME cfg) [(''imageId'', key)];
                            w3 = issue deleteItem w2
                        in if send_raises svc deleteItem
                           then (internal_error ''Failed to delete image'', w3)
                           else
                             (\<lparr>status = 200,
                               json = JObj [(''success'', JBool True),
                                            (''message'', JStr ''Image deleted'')]\<rparr>,
                              w3\<lparr>table := delete_item key (table w3)\<rparr>)))))"


subsection \<open>The routes\<close>

text \<open>
  The routes that use a service client.  The two others, \<^verbatim>\<open>/health\<close> and \<^verbatim>\<open>/\<close>, answer
  without reading the request or calling a service.
\<close>

datatype route = GeneratePresignedUrl | SaveMetadata | Search | DeleteImage

fun handle ::
  "config \<Rightarrow> services \<Rightarrow> nat \<Rightarrow> route \<Rightarrow> request \<Rightarrow> world \<Rightarrow> response \<times> world" where
  "handle cfg svc now GeneratePresignedUrl req w = generate_presigned_url cfg svc now req w"
| "handle cfg svc now SaveMetadata req w = save_metadata cfg svc now req w"
| "handle cfg svc now Search req w = search cfg svc req w"
| "handle cfg svc now DeleteImage req w = delete_image cfg svc req w"

section \<open>Notions of the specification\<close>

text \<open>A required field is present when it is a string that is not empty.\<close>

definition nonempty_string :: "jsval \<Rightarrow> bool" where
  "nonempty_string v = (case v of JStr s \<Rightarrow> s \<noteq> [] | _ \<Rightarrow> False)"

text \<open>
  Two readings of "white space replaced by hyphens": \<open>spec_hyphenate\<close> puts a hyphen for
  every white-space character; \<open>spec_runs_to_hyphens\<close> puts a hyphen for the first
  character of every run of white space and drops the rest of the run (the flag tells
  whether the previous character was white space).
\<close>

definition spec_hyphenate :: "string \<Rightarrow> string" where
  "spec_hyphenate s = map (\<lambda>c. if is_space c then CHR ''-'' else c) s"

fun spec_runs_to_hyphens :: "bool \<Rightarrow> string \<Rightarrow> string" where
  "spec_runs_to_hyphens after_space [] = []"
| "spec_runs_to_hyphens after_space (c # cs) =
     (if is_space c then (if after_space then [] else ''-'') @ spec_runs_to_hyphens True cs
      else c # spec_runs_to_hyphens False cs)"

fun adjacent_spaces :: "string \<Rightarrow> bool" where
  "adjacent_spaces (c # d # cs) = ((is_space c \<and> is_space d) \<or> adjacent_spaces (d # cs))"
| "adjacent_spaces cs = False"

text \<open>
  The search of the specification: the needle is a substring of the lower-cased caption or
  of some lower-cased tag.  \<open>image_record\<close> is the typing of the data model: the
  \<^verbatim>\<open>imageId\<close> is a string, the caption is a string, the tags are a sequence of strings and
  the \<^verbatim>\<open>uploadTime\<close> is an integer in the safe range, where the last three may be absent.
\<close>

definition spec_matches :: "string \<Rightarrow> jsobj \<Rightarrow> bool" where
  "spec_matches needle item =
     ((case get_prop item ''caption'' of
         JStr caption \<Rightarrow> sublist needle (toLowerCase caption)
       | _ \<Rightarrow> False)
      \<or> (case get_prop item ''tags'' of
            JArr tags \<Rightarrow>
              list_ex (\<lambda>tag. case tag of
                               JStr t \<Rightarrow> sublist needle (toLowerCase t)
                             | _ \<Rightarrow> False) tags
          | _ \<Rightarrow> False))"

definition image_record :: "jsobj \<Rightarrow> bool" where
  "image_record item =
     ((case get_prop item ''imageId'' of JStr imageId \<Rightarrow> True | _ \<Rightarrow> False)
      \<and> (case get_prop item ''caption'' of
            JStr caption \<Rightarrow> True
          | JUndefined \<Rightarrow> True
          | _ \<Rightarrow> False)
      \<and> (case get_prop item ''tags'' of
            JArr tags \<Rightarrow> list_all (\<lambda>tag. case tag of JStr t \<Rightarrow> True | _ \<Rightarrow> False) tags
          | JUndefined \<Rightarrow> True
          | _ \<Rightarrow> False)
      \<and> (case get_prop item ''uploadTime'' of
            JNum t \<Rightarrow> - 9007199254740991 \<le> t \<and> t \<le> 9007199254740991
          | JUndefined \<Rightarrow> True
          | _ \<Rightarrow> False))"

text \<open>The same item with another uploader.\<close>

definition set_uploader :: "jsval \<Rightarrow> jsobj \<Rightarrow> jsobj" where
  "set_uploader u item = (''uploaderId'', u) # item"

text \<open>
  A valid body for save-metadata: the key is a non-empty string, the caption a string or
  absent, the tags an array or absent.  \<open>stored_record\<close> is the record the specification
  describes for such a request.
\<close>

definition valid_metadata :: "jsobj \<Rightarrow> bool" where
  "valid_metadata b =
     (nonempty_string (get_prop b ''key'')
      \<and> (case get_prop b ''caption'' of JStr c \<Rightarrow> True | JUndefined \<Rightarrow> True | _ \<Rightarrow> False)
      \<and> (case get_prop b ''tags'' of JArr ts \<Rightarrow> True | JUndefined \<Rightarrow> True | _ \<Rightarrow> False))"

definition stored_record :: "nat \<Rightarrow> request \<Rightarrow> jsobj" where
  "stored_record now req =
     [(''imageId'', get_prop (req_body req) ''key''),
      (''caption'',
         if get_prop (req_body req) ''caption'' = JUndefined then JStr []
         else get_prop (req_body req) ''caption''),
      (''tags'',
         if get_prop (req_body req) ''tags'' = JUndefined then JArr []
         else get_prop (req_body req) ''tags''),
      (''uploadTime'', JNum (int now)),
      (''uploaderId'', req_ip req)]"

section \<open>Concrete inputs\<close>

definition example_config :: config where
  "example_config =
     \<lparr>S3_BUCKET_NAME = ''vault'', AWS_REGION = ''eu-west-1'', DYNAMODB_TABLE_NAME = ''images'',
      AWS_ACCESS_KEY_ID = ''AKIAEXAMPLE'', AWS_SECRET_ACCESS_KEY = ''secret''\<rparr>"

definition services_ok :: services where
  "services_ok =
     \<lparr>presigned_post = (\<lambda>opts. Inr (JStr ''https://s3.example/'', JObj [])),
      send_raises = (\<lambda>c. False), scan_page = 1000\<rparr>"

text \<open>Services whose scan page holds one item.\<close>

definition services_small_page :: services where
  "services_small_page =
     \<lparr>presigned_post = (\<lambda>opts. Inr (JStr ''https://s3.example/'', JObj [])),
      send_raises = (\<lambda>c. False), scan_page = 1\<rparr>"

definition empty_world :: world where
  "empty_world = \<lparr>objects = {}, table = [], calls = []\<rparr>"

definition upload_request :: "string \<Rightarrow> request" where
  "upload_request fileName =
     \<lparr>req_body = [(''fileName'', JStr fileName), (''fileType'', JStr ''image/png'')],
      req_q = JUndefined, req_ip = JStr ''203.0.113.7''\<rparr>"

definition empty_request :: request where
  "empty_request = \<lparr>req_body = [], req_q = JUndefined, req_ip = JStr ''203.0.113.7''\<rparr>"

definition search_request :: "jsval \<Rightarrow> request" where
  "search_request q = \<lparr>req_body = [], req_q = q, req_ip = JStr ''203.0.113.7''\<rparr>"

definition metadata_request :: "string \<Rightarrow> string \<Rightarrow> jsval list \<Rightarrow> request" where
  "metadata_request key caption tags =
     \<lparr>req_body = [(''key'', JStr key), (''caption'', JStr caption), (''tags'', JArr tags)],
      req_q = JUndefined, req_ip = JStr ''203.0.113.7''\<rparr>"

definition beach_item :: jsobj where
  "beach_item =
     [(''imageId'', JStr ''images/1-beach.png''), (''caption'', JStr ''Sunset at the Beach''),
      (''tags'', JArr [JStr ''sea'']), (''uploadTime'', JNum 1),
      (''uploaderId'', JStr ''203.0.113.7'')]"

definition cat_item :: jsobj where
  "cat_item =
     [(''imageId'', JStr ''images/2-cat.png''), (''caption'', JStr []),
      (''tags'', JArr [JStr ''Cat'']), (''uploadTime'', JNum 2),
      (''uploaderId'', JStr ''203.0.113.7'')]"

definition example_world :: world where
  "example_world =
     \<lparr>objects = {''images/1-beach.png'', ''images/2-cat.png''},
      table = [beach_item, cat_item], calls = []\<rparr>"

definition untyped_item :: jsobj where
  "untyped_item =
     [(''imageId'', JStr ''images/3-a.png''), (''caption'', JStr ''a''),
      (''tags'', JArr [JNum 7]), (''uploadTime'', JNum 1700000000000),
      (''uploaderId'', JStr ''203.0.113.7'')]"

definition untyped_world :: world where
  "untyped_world =
     \<lparr>objects = {}, table = [untyped_item], calls = [PutItemCommand ''images'' untyped_item]\<rparr>"

definition key_only_request :: "string \<Rightarrow> request" where
  "key_only_request key =
     \<lparr>req_body = [(''key'', JStr key)], req_q = JUndefined, req_ip = JStr ''203.0.113.7''\<rparr>"

definition first_write :: request where
  "first_write = metadata_request ''images/1-beach.png'' ''first caption'' [JStr ''sea'']"

definition second_write :: request where
  "second_write =
     \<lparr>req_body = [(''key'', JStr ''images/1-beach.png''), (''caption'', JStr ''second caption'')],
      req_q = JUndefined, req_ip = JStr ''198.51.100.1''\<rparr>"

definition delete_request :: "string \<Rightarrow> request" where
  "delete_request key =
     \<lparr>req_body = [(''key'', JStr key)], req_q = JUndefined, req_ip = JStr ''203.0.113.7''\<rparr>"

text \<open>Services whose table delete raises, and services whose object delete raises.\<close>

definition services_table_down :: services where
  "services_table_down =
     \<lparr>presigned_post = (\<lambda>opts. Inl ServiceError),
      send_raises = (\<lambda>c. case c of DeleteItemCommand t k \<Rightarrow> True | _ \<Rightarrow> False),
      scan_page = 1000\<rparr>"

definition services_store_down :: services where
  "services_store_down =
     \<lparr>presigned_post = (\<lambda>opts. Inl ServiceError),
      send_raises = (\<lambda>c. case c of DeleteObjectCommand b k \<Rightarrow> True | _ \<Rightarrow> False),
      scan_page = 1000\<rparr>"

section \<open>Strings\<close>

lemma str_includes_sublist: "str_includes s t \<longleftrightarrow> sublist t s"
  by (induction s) (auto simp: sublist_Cons_right)

lemma of_char_less_256: "(of_char c :: nat) < 256"
  by (cases c) simp

lemma is_space_lower_char: "is_space (lower_char c) = is_space c"
  using of_char_less_256 [of c]
  by (auto simp: is_space_def lower_char_def Let_def)

lemma dropWhile_toLowerCase:
  "dropWhile is_space (toLowerCase s) = toLowerCase (dropWhile is_space s)"
  by (induction s) (simp_all add: toLowerCase_def is_space_lower_char)

lemma trim_toLowerCase: "trim (toLowerCase s) = toLowerCase (trim s)"
proof -
  have "rev (toLowerCase s) = toLowerCase (rev s)" for s
    by (simp add: toLowerCase_def rev_map)
  then show ?thesis
    by (simp add: trim_def dropWhile_toLowerCase)
qed

lemma trim_toLowerCase_empty: "trim (toLowerCase s) = [] \<longleftrightarrow> trim s = []"
  by (simp add: trim_toLowerCase) (simp add: toLowerCase_def)

lemma decimal_digits: "decimal n \<noteq> [] \<and> list_all is_digit (decimal n)"
proof (induction n rule: decimal.induct)
  case (1 n)
  show ?case
  proof (cases "n < 10")
    case True
    then show ?thesis by (simp add: decimal.simps [of n] is_digit_def)
  next
    case False
    have "n mod 10 < 10" by simp
    then have "is_digit (char_of (48 + n mod 10))"
      by (simp add: is_digit_def)
    with False 1 show ?thesis by (simp add: decimal.simps [of n])
  qed
qed

lemma replace_ws_runs_no_space: "\<not> list_ex is_space (replace_ws_runs s)"
  by (induction s rule: replace_ws_runs.induct) (auto simp: is_space_def)

lemma spec_runs_after_space:
  "spec_runs_to_hyphens True cs = spec_runs_to_hyphens False (dropWhile is_space cs)"
  by (induction cs) auto

lemma replace_ws_runs_spec: "replace_ws_runs s = spec_runs_to_hyphens False s"
  by (induction s rule: replace_ws_runs.induct) (auto simp: spec_runs_after_space)

lemma replace_ws_runs_hyphenate:
  "\<not> adjacent_spaces s \<Longrightarrow> replace_ws_runs s = spec_hyphenate s"
proof (induction s rule: replace_ws_runs.induct)
  case 1
  then show ?case by (simp add: spec_hyphenate_def)
next
  case (2 c cs)
  show ?case
  proof (cases cs)
    case Nil
    then show ?thesis by (simp add: spec_hyphenate_def)
  next
    case (Cons d ds)
    with 2 show ?thesis by (auto simp: spec_hyphenate_def)
  qed
qed

section \<open>Validation\<close>

lemma run_chain_required:
  "run_chain b (name, [IsString, NotEmpty], False) = [] \<longleftrightarrow> nonempty_string (get_prop b name)"
  by (cases "get_prop b name") (auto simp: nonempty_string_def)

lemma generate_rejects:
  assumes "\<not> nonempty_string (get_prop (req_body req) ''fileName'')
           \<or> \<not> nonempty_string (get_prop (req_body req) ''fileType'')"
  shows "\<exists>errors. errors \<noteq> [] \<and>
           generate_presigned_url cfg svc now req w = (validation_failure errors, w)"
  using assms run_chain_required [of "req_body req"]
  by (auto simp: generate_presigned_url_def validationResult_def Let_def
      simp del: run_chain.simps)

lemma save_rejects:
  assumes "\<not> nonempty_string (get_prop (req_body req) ''key'')"
  shows "\<exists>errors. errors \<noteq> [] \<and> save_metadata cfg svc now req w = (validation_failure errors, w)"
  using assms run_chain_required [of "req_body req"]
  by (auto simp: save_metadata_def validationResult_def Let_def simp del: run_chain.simps)

lemma delete_rejects:
  assumes "\<not> nonempty_string (get_prop (req_body req) ''key'')"
  shows "\<exists>errors. errors \<noteq> [] \<and> delete_image cfg svc req w = (validation_failure errors, w)"
  using assms run_chain_required [of "req_body req"]
  by (auto simp: delete_image_def validationResult_def Let_def simp del: run_chain.simps)

section \<open>Issuing an upload URL\<close>

lemma generate_valid:
  assumes "get_prop (req_body req) ''fileName'' = JStr fileName" and "fileName \<noteq> []"
    and "nonempty_string (get_prop (req_body req) ''fileType'')"
  shows "generate_presigned_url cfg svc now req w =
     (case presigned_post svc (post_options cfg (upload_key now fileName)) of
        Inl e \<Rightarrow> internal_error ''Failed to generate upload URL''
      | Inr (url, form_fields) \<Rightarrow>
          \<lparr>status = 200,
           json = JObj [(''url'', url), (''fields'', form_fields),
                        (''key'', JStr (upload_key now fileName))]\<rparr>,
      issue (CreatePresignedPost (post_options cfg (upload_key now fileName))) w)"
  using assms
  by (auto simp: generate_presigned_url_def validationResult_def nonempty_string_def Let_def
      split: sum.splits jsval.splits)


lemma generate_example:
  "generate_presigned_url example_config services_ok 1700000000000
     (upload_request ''cat pic.png'') empty_world =
   (\<lparr>status = 200,
     json = JObj [(''url'', JStr ''https://s3.example/''), (''fields'', JObj []),
                  (''key'', JStr ''images/1700000000000-cat-pic.png'')]\<rparr>,
    \<lparr>objects = {}, table = [],
     calls = [CreatePresignedPost
               \<lparr>Bucket = ''vault'', Key = ''images/1700000000000-cat-pic.png'', Fields = [],
                Conditions = [ContentLengthRange 0 10485760], Expires = 300\<rparr>]\<rparr>)"
  by (simp add: generate_presigned_url_def validationResult_def get_prop_def upload_request_def
      upload_key_def decimal.simps char_of_def bit_Suc_0_iff is_space_def post_options_def
      issue_def services_ok_def example_config_def empty_world_def Let_def)

lemma upload_request_valid:
  "get_prop (req_body (upload_request f)) ''fileName'' = JStr f"
  "nonempty_string (get_prop (req_body (upload_request f)) ''fileType'')"
  by (simp_all add: upload_request_def get_prop_def nonempty_string_def)

text \<open>
  C2, as stated: the key is \<^verbatim>\<open>images/\<close>, the timestamp, a hyphen and the file name with
  every white-space character replaced by a hyphen.  It fails for the file name
  \<^verbatim>\<open>a  b\<close> with two spaces: the handler answers with the key \<^verbatim>\<open>images/1700000000000-a-b\<close>,
  the claim asks for \<^verbatim>\<open>images/1700000000000-a--b\<close>.
\<close>

theorem upload_key_counterexample:
  "json (fst (generate_presigned_url example_config services_ok 1700000000000
            (upload_request ''a  b'') empty_world))
     = JObj [(''url'', JStr ''https://s3.example/''), (''fields'', JObj []),
             (''key'', JStr ''images/1700000000000-a-b'')]
   \<and> ''images/'' @ decimal 1700000000000 @ ''-'' @ spec_hyphenate ''a  b''
     = ''images/1700000000000-a--b''"
  by (simp add: generate_presigned_url_def validationResult_def get_prop_def upload_request_def
      upload_key_def decimal.simps char_of_def bit_Suc_0_iff is_space_def post_options_def
      issue_def services_ok_def example_config_def empty_world_def Let_def spec_hyphenate_def)

text \<open>
  C2, amended: for a request with a non-empty \<^verbatim>\<open>fileName\<close> and \<^verbatim>\<open>fileType\<close> and
  every time \<open>now\<close>, the key for which the upload authorization is requested, which is
  also the key of a successful response, is \<^verbatim>\<open>images/\<close>, the decimal digits of \<open>now\<close>, a
  hyphen, and the file name with every maximal run of white space replaced by one hyphen.
  That name holds no white space, it is the file name with every white-space character
  replaced by a hyphen when no two white-space characters are adjacent, and for
  \<^verbatim>\<open>cat pic.png\<close> it is \<^verbatim>\<open>cat-pic.png\<close>.
\<close>

theorem upload_key_form:
  assumes "get_prop (req_body req) ''fileName'' = JStr fileName" and "fileName \<noteq> []"
    and "nonempty_string (get_prop (req_body req) ''fileType'')"
    and "generate_presigned_url cfg svc now req w = (r, w')"
  shows "(\<exists>opts. calls w' = calls w @ [CreatePresignedPost opts] \<and>
            Key opts = ''images/'' @ decimal now @ ''-'' @ spec_runs_to_hyphens False fileName \<and>
            (status r = 200 \<longrightarrow>
               (\<exists>url form_fields.
                  json r = JObj [(''url'', url), (''fields'', form_fields),
                                 (''key'', JStr (Key opts))])))
       \<and> decimal now \<noteq> [] \<and> list_all is_digit (decimal now)
       \<and> \<not> list_ex is_space (spec_runs_to_hyphens False fileName)
       \<and> (\<not> adjacent_spaces fileName \<longrightarrow>
            spec_runs_to_hyphens False fileName = spec_hyphenate fileName)
       \<and> spec_runs_to_hyphens False ''cat pic.png'' = ''cat-pic.png''"
proof -
  have "spec_runs_to_hyphens False ''cat pic.png'' = ''cat-pic.png''"
    by (simp add: is_space_def)
  moreover have "\<not> list_ex is_space (spec_runs_to_hyphens False fileName)"
    using replace_ws_runs_no_space [of fileName] by (simp add: replace_ws_runs_spec)
  moreover have "\<not> adjacent_spaces fileName \<longrightarrow>
      spec_runs_to_hyphens False fileName = spec_hyphenate fileName"
    using replace_ws_runs_hyphenate [of fileName] by (simp add: replace_ws_runs_spec)
  moreover have "\<exists>opts. calls w' = calls w @ [CreatePresignedPost opts] \<and>
            Key opts = ''images/'' @ decimal now @ ''-'' @ spec_runs_to_hyphens False fileName \<and>
            (status r = 200 \<longrightarrow>
               (\<exists>url form_fields.
                  json r = JObj [(''url'', url), (''fields'', form_fields),
                                 (''key'', JStr (Key opts))]))"
    using assms(4) generate_valid [OF assms(1-3), of cfg svc now w]
    by (auto simp: issue_def post_options_def upload_key_def replace_ws_runs_spec
        internal_error_def split: sum.splits)
  ultimately show ?thesis using decimal_digits [of now] by blast
qed

theorem upload_key_form_witness:
  "get_prop (req_body (upload_request ''cat pic.png'')) ''fileName'' = JStr ''cat pic.png''
   \<and> nonempty_string (get_prop (req_body (upload_request ''cat pic.png'')) ''fileType'')
   \<and> \<not> adjacent_spaces ''cat pic.png''
   \<and> json (fst (generate_presigned_url example_config services_ok 1700000000000
                  (upload_request ''cat pic.png'') empty_world))
       = JObj [(''url'', JStr ''https://s3.example/''), (''fields'', JObj []),
               (''key'', JStr (''images/'' @ decimal 1700000000000 @ ''-''
                                @ spec_hyphenate ''cat pic.png''))]"
proof -
  let ?req = "upload_request ''cat pic.png''"
  let ?res = "generate_presigned_url example_config services_ok 1700000000000 ?req empty_world"
  have h1: "get_prop (req_body ?req) ''fileName'' = JStr ''cat pic.png''"
    by (rule upload_request_valid)
  have h2: "''cat pic.png'' \<noteq> []" by simp
  have h3: "nonempty_string (get_prop (req_body ?req) ''fileType'')"
    by (rule upload_request_valid)
  have h4: "?res = (fst ?res, snd ?res)" by simp
  have h5: "\<not> adjacent_spaces ''cat pic.png''" by (simp add: is_space_def)
  have h6: "status (fst ?res) = 200" by (simp add: generate_example)
  note T = upload_key_form [OF h1 h2 h3 h4]
  from T have A: "\<exists>opts. calls (snd ?res) = calls empty_world @ [CreatePresignedPost opts] \<and>
            Key opts = ''images/'' @ decimal 1700000000000 @ ''-'' @ spec_runs_to_hyphens False ''cat pic.png'' \<and>
            (status (fst ?res) = 200 \<longrightarrow>
               (\<exists>url form_fields.
                  json (fst ?res) = JObj [(''url'', url), (''fields'', form_fields),
                                 (''key'', JStr (Key opts))]))"
    by (rule conjunct1)
  from T have E: "\<not> adjacent_spaces ''cat pic.png'' \<longrightarrow>
            spec_runs_to_hyphens False ''cat pic.png'' = spec_hyphenate ''cat pic.png''"
    by (elim conjE)
  from E h5 have e: "spec_runs_to_hyphens False ''cat pic.png'' = spec_hyphenate ''cat pic.png''"
    by (rule mp)
  from A obtain opts where
    B: "calls (snd ?res) = calls empty_world @ [CreatePresignedPost opts] \<and>
        Key opts = ''images/'' @ decimal 1700000000000 @ ''-'' @ spec_runs_to_hyphens False ''cat pic.png'' \<and>
        (status (fst ?res) = 200 \<longrightarrow>
           (\<exists>url form_fields.
              json (fst ?res) = JObj [(''url'', url), (''fields'', form_fields),
                                      (''key'', JStr (Key opts))]))" ..
  from B have k: "Key opts = ''images/'' @ decimal 1700000000000 @ ''-'' @ spec_runs_to_hyphens False ''cat pic.png''"
    by (rule conjunct1 [OF conjunct2])
  from B have "status (fst ?res) = 200 \<longrightarrow>
           (\<exists>url form_fields.
              json (fst ?res) = JObj [(''url'', url), (''fields'', form_fields),
                                      (''key'', JStr (Key opts))])"
    by (rule conjunct2 [OF conjunct2])
  from this h6 have "\<exists>url form_fields.
              json (fst ?res) = JObj [(''url'', url), (''fields'', form_fields),
                                      (''key'', JStr (Key opts))]"
    by (rule mp)
  then obtain url form_fields where
    j': "json (fst ?res) = JObj [(''url'', url), (''fields'', form_fields), (''key'', JStr (Key opts))]"
    by blast
  have g: "json (fst ?res) = JObj [(''url'', JStr ''https://s3.example/''), (''fields'', JObj []),
                  (''key'', JStr ''images/1700000000000-cat-pic.png'')]"
    by (simp add: generate_example)
  from j' g have "url = JStr ''https://s3.example/''" "form_fields = JObj []" by simp_all
  with j' k e have "json (fst ?res) = JObj [(''url'', JStr ''https://s3.example/''), (''fields'', JObj []),
               (''key'', JStr (''images/'' @ decimal 1700000000000 @ ''-''
                                @ spec_hyphenate ''cat pic.png''))]"
    by (simp only:)
  with h1 h3 h5 show ?thesis by (intro conjI)
qed

text \<open>
  C8: for every request with a non-empty \<^verbatim>\<open>fileName\<close> and \<^verbatim>\<open>fileType\<close>, the handler
  issues exactly one call, the request for an upload authorization; its only condition is
  a content length between 0 and 10,485,760 bytes (10 MiB), it fixes no form field and so
  no content type, it expires after 300 seconds, and a different \<^verbatim>\<open>fileType\<close> leads to the
  same call.
\<close>

theorem presigned_post_constraints:
  assumes "nonempty_string (get_prop (req_body req) ''fileName'')"
    and "nonempty_string (get_prop (req_body req) ''fileType'')"
  shows "(\<exists>key. calls (snd (generate_presigned_url cfg svc now req w)) =
            calls w @ [CreatePresignedPost
                        \<lparr>Bucket = S3_BUCKET_NAME cfg, Key = key, Fields = [],
                         Conditions = [ContentLengthRange 0 10485760], Expires = 300\<rparr>])
       \<and> (10485760 :: nat) = 10 * 1024 * 1024
       \<and> (\<forall>fileType. fileType \<noteq> [] \<longrightarrow>
            calls (snd (generate_presigned_url cfg svc now
                          (req\<lparr>req_body := (''fileType'', JStr fileType) # req_body req\<rparr>) w)) =
            calls (snd (generate_presigned_url cfg svc now req w)))"
proof -
  from assms(1) obtain fileName
    where f: "get_prop (req_body req) ''fileName'' = JStr fileName" "fileName \<noteq> []"
    by (auto simp: nonempty_string_def split: jsval.splits)
  have a: "calls (snd (generate_presigned_url cfg svc now req w)) =
      calls w @ [CreatePresignedPost (post_options cfg (upload_key now fileName))]"
    by (simp add: generate_valid [OF f assms(2)] issue_def)
  have b: "calls (snd (generate_presigned_url cfg svc now
                          (req\<lparr>req_body := (''fileType'', JStr fileType) # req_body req\<rparr>) w)) =
      calls w @ [CreatePresignedPost (post_options cfg (upload_key now fileName))]"
    if "fileType \<noteq> []" for fileType
  proof -
    let ?req = "req\<lparr>req_body := (''fileType'', JStr fileType) # req_body req\<rparr>"
    have "get_prop (req_body ?req) ''fileName'' = JStr fileName"
      using f(1) by (simp add: get_prop_def)
    moreover have "nonempty_string (get_prop (req_body ?req) ''fileType'')"
      using that by (simp add: get_prop_def nonempty_string_def)
    ultimately show ?thesis
      using f(2) by (simp add: generate_valid issue_def)
  qed
  show ?thesis using a b by (simp add: post_options_def)
qed

theorem presigned_post_constraints_witness:
  "nonempty_string (get_prop (req_body (upload_request ''cat pic.png'')) ''fileName'')
   \<and> nonempty_string (get_prop (req_body (upload_request ''cat pic.png'')) ''fileType'')
   \<and> calls (snd (generate_presigned_url example_config services_ok 1700000000000
                    (upload_request ''cat pic.png'') empty_world)) =
       [CreatePresignedPost
          \<lparr>Bucket = ''vault'', Key = ''images/1700000000000-cat-pic.png'', Fields = [],
           Conditions = [ContentLengthRange 0 10485760], Expires = 300\<rparr>]"
proof -
  have h1: "nonempty_string (get_prop (req_body (upload_request ''cat pic.png'')) ''fileName'')"
    by (simp add: upload_request_def get_prop_def nonempty_string_def)
  have h2: "nonempty_string (get_prop (req_body (upload_request ''cat pic.png'')) ''fileType'')"
    by (simp add: upload_request_def get_prop_def nonempty_string_def)
  show ?thesis
    using h1 h2
      presigned_post_constraints [OF h1 h2, of example_config services_ok 1700000000000 empty_world]
    by (simp add: generate_example)
qed

section \<open>Rejected requests\<close>

text \<open>
  C4: on each validated endpoint, a request whose required field (\<^verbatim>\<open>fileName\<close> or
  \<^verbatim>\<open>fileType\<close> for generate-presigned-url, \<^verbatim>\<open>key\<close> for save-metadata and delete-image) is
  missing, empty or not a string is answered with the status 400 and a non-empty array of
  errors, and the world is left as it was: no call is added to the trace, and the objects
  and the table are unchanged.
\<close>

theorem missing_field_rejected:
  "(\<not> nonempty_string (get_prop (req_body req) ''fileName'')
      \<or> \<not> nonempty_string (get_prop (req_body req) ''fileType'') \<longrightarrow>
      (\<exists>errors. errors \<noteq> [] \<and>
         generate_presigned_url cfg svc now req w =
           (\<lparr>status = 400, json = JObj [(''errors'', JArr errors)]\<rparr>, w)))
   \<and> (\<not> nonempty_string (get_prop (req_body req) ''key'') \<longrightarrow>
      (\<exists>errors. errors \<noteq> [] \<and>
         save_metadata cfg svc now req w =
           (\<lparr>status = 400, json = JObj [(''errors'', JArr errors)]\<rparr>, w))
      \<and> (\<exists>errors. errors \<noteq> [] \<and>
         delete_image cfg svc req w =
           (\<lparr>status = 400, json = JObj [(''errors'', JArr errors)]\<rparr>, w)))"
  using generate_rejects [of req cfg svc now w] save_rejects [of req cfg svc now w]
    delete_rejects [of req cfg svc w]
  by (simp add: validation_failure_def)

theorem missing_field_rejected_witness:
  "\<not> nonempty_string (get_prop (req_body empty_request) ''fileName'')
   \<and> \<not> nonempty_string (get_prop (req_body empty_request) ''key'')
   \<and> status (fst (generate_presigned_url example_config services_ok 1700000000000
                    empty_request empty_world)) = 400
   \<and> snd (generate_presigned_url example_config services_ok 1700000000000
            empty_request empty_world) = empty_world
   \<and> status (fst (save_metadata example_config services_ok 1700000000000
                    empty_request empty_world)) = 400
   \<and> snd (save_metadata example_config services_ok 1700000000000
            empty_request empty_world) = empty_world
   \<and> status (fst (delete_image example_config services_ok empty_request empty_world)) = 400
   \<and> snd (delete_image example_config services_ok empty_request empty_world) = empty_world"
proof -
  have h1: "\<not> nonempty_string (get_prop (req_body empty_request) ''fileName'')"
    by (simp add: empty_request_def get_prop_def nonempty_string_def)
  have h2: "\<not> nonempty_string (get_prop (req_body empty_request) ''key'')"
    by (simp add: empty_request_def get_prop_def nonempty_string_def)
  show ?thesis
    using h1 h2
      missing_field_rejected [of empty_request example_config services_ok 1700000000000 empty_world]
    by auto
qed

section \<open>Searching the catalog\<close>

lemma caption_match_spec:
  assumes "needle \<noteq> []" and "caption_match needle item = Inr b"
  shows "b = (case get_prop item ''caption'' of
                JStr caption \<Rightarrow> sublist needle (toLowerCase caption) | _ \<Rightarrow> False)"
  using assms
  by (cases "get_prop item ''caption''")
     (auto simp: caption_match_def Let_def str_includes_sublist toLowerCase_def split: if_splits)

lemma tags_some_spec:
  assumes "needle \<noteq> []" and "tags_some needle tags = Inr b"
  shows "b = list_ex (\<lambda>tag. case tag of JStr t \<Rightarrow> sublist needle (toLowerCase t) | _ \<Rightarrow> False) tags"
  using assms
proof (induction tags)
  case Nil
  then show ?case by simp
next
  case (Cons tag tags)
  then show ?case
    by (cases tag) (auto simp: str_includes_sublist toLowerCase_def split: if_splits)
qed

lemma tags_match_spec:
  assumes "needle \<noteq> []" and "tags_match needle item = Inr b"
  shows "b = (case get_prop item ''tags'' of
            JArr tags \<Rightarrow>
              list_ex (\<lambda>tag. case tag of
                               JStr t \<Rightarrow> sublist needle (toLowerCase t)
                             | _ \<Rightarrow> False) tags
          | _ \<Rightarrow> False)"
  using assms tags_some_spec [of needle _ b]
  by (cases "get_prop item ''tags''") (auto simp: tags_match_def Let_def split: if_splits)

lemma item_matches_spec:
  assumes "needle \<noteq> []" and "item_matches needle item = Inr b"
  shows "b = spec_matches needle item"
  using assms caption_match_spec [of needle item] tags_match_spec [of needle item]
  by (auto simp: item_matches_def spec_matches_def split: sum.splits)

lemma filter_items_spec:
  assumes "needle \<noteq> []" and "filter_items needle items = Inr kept"
  shows "kept = filter (spec_matches needle) items"
  using assms
proof (induction items arbitrary: kept)
  case Nil
  then show ?case by simp
next
  case (Cons item items)
  then show ?case
    by (auto split: sum.splits dest: item_matches_spec)
qed

lemma tags_some_strings:
  assumes "list_all (\<lambda>tag. case tag of JStr t \<Rightarrow> True | _ \<Rightarrow> False) tags"
  shows "\<exists>b. tags_some needle tags = Inr b"
  using assms by (induction tags) (auto split: jsval.splits)

lemma item_matches_image_record:
  assumes "image_record item"
  shows "\<exists>b. item_matches needle item = Inr b"
proof -
  have "\<exists>b. caption_match needle item = Inr b"
    using assms by (auto simp: image_record_def caption_match_def Let_def split: jsval.splits)
  moreover have "\<exists>b. tags_match needle item = Inr b"
    using assms tags_some_strings [where needle = needle]
    by (auto simp: image_record_def tags_match_def Let_def split: jsval.splits)
  ultimately show ?thesis by (auto simp: item_matches_def)
qed

lemma filter_items_image_records:
  assumes "list_all image_record items"
  shows "\<exists>kept. filter_items needle items = Inr kept"
  using assms
proof (induction items)
  case Nil
  then show ?case by simp
next
  case (Cons item items)
  then show ?case
    using item_matches_image_record [of item needle] by auto
qed


lemma search_all:
  assumes "\<not> send_raises svc (ScanCommand (DYNAMODB_TABLE_NAME cfg))"
    and "req_q req = JUndefined \<or> (req_q req = JStr q \<and> trim q = [])"
  shows "search cfg svc req w =
     (send_results (map (result_object cfg) (take (scan_page svc) (table w))),
      issue (ScanCommand (DYNAMODB_TABLE_NAME cfg)) w)"
  using assms by (auto simp: search_def Let_def issue_def)

lemma search_filtered:
  assumes "\<not> send_raises svc (ScanCommand (DYNAMODB_TABLE_NAME cfg))"
    and "req_q req = JStr q" and "trim q \<noteq> []"
  shows "search cfg svc req w =
     (case filter_items (trim (toLowerCase q)) (take (scan_page svc) (table w)) of
        Inl e \<Rightarrow> internal_error ''Search failed''
      | Inr kept \<Rightarrow> send_results (map (result_object cfg) kept),
      issue (ScanCommand (DYNAMODB_TABLE_NAME cfg)) w)"
proof -
  from assms(3) have "q \<noteq> []" by (auto simp: trim_def)
  with assms show ?thesis
    by (auto simp: search_def Let_def issue_def split: sum.splits)
qed

lemma send_results_ok:
  "status (send_results xs) = 200 \<longleftrightarrow> json_serializable (JArr xs)"
  "status (send_results xs) = 200 \<Longrightarrow> send_results xs = \<lparr>status = 200, json = JArr xs\<rparr>"
  by (auto simp: send_results_def internal_error_def split: if_splits)

lemma search_snd: "snd (search cfg svc req w) = issue (ScanCommand (DYNAMODB_TABLE_NAME cfg)) w"
  by (auto simp: search_def Let_def split: jsval.splits sum.splits)

lemma search_raises:
  "send_raises svc (ScanCommand (DYNAMODB_TABLE_NAME cfg)) \<Longrightarrow>
   status (fst (search cfg svc req w)) = 500"
  by (simp add: search_def Let_def internal_error_def)

lemma search_ok_cases:
  assumes "search cfg svc req w = (r, w')" and "status r = 200"
  shows "\<not> send_raises svc (ScanCommand (DYNAMODB_TABLE_NAME cfg)) \<and>
         w' = issue (ScanCommand (DYNAMODB_TABLE_NAME cfg)) w \<and>
         (r = \<lparr>status = 200,
               json = JArr (map (result_object cfg) (take (scan_page svc) (table w)))\<rparr> \<or>
          (\<exists>q kept. req_q req = JStr q \<and> trim q \<noteq> [] \<and>
             filter_items (trim (toLowerCase q)) (take (scan_page svc) (table w)) = Inr kept \<and>
             r = \<lparr>status = 200, json = JArr (map (result_object cfg) kept)\<rparr>))"
proof -
  from assms search_raises [of svc cfg req w]
  have ok: "\<not> send_raises svc (ScanCommand (DYNAMODB_TABLE_NAME cfg))" by auto
  from assms(1) search_snd [of cfg svc req w]
  have w': "w' = issue (ScanCommand (DYNAMODB_TABLE_NAME cfg)) w" by simp
  let ?page = "take (scan_page svc) (table w)"
  show ?thesis
  proof (cases "req_q req")
    case (JStr q)
    show ?thesis
    proof (cases "trim q = []")
      case True
      with JStr assms search_all [OF ok, of req q w] ok w' show ?thesis
        by (auto simp: send_results_ok)
    next
      case False
      with JStr assms search_filtered [OF ok, of req q w] ok w' show ?thesis
        by (cases "filter_items (trim (toLowerCase q)) ?page")
           (auto simp: send_results_ok internal_error_def)
    qed
  next
    case JUndefined
    with assms search_all [OF ok, of req undefined w] ok w' show ?thesis
      by (auto simp: send_results_ok)
  qed (use assms in \<open>auto simp: search_def Let_def issue_def internal_error_def send_results_ok
        split: if_splits\<close>)
qed

lemma json_serializable_strings:
  "list_all (\<lambda>tag. case tag of JStr t \<Rightarrow> True | _ \<Rightarrow> False) tags \<Longrightarrow>
   list_all json_serializable tags"
  by (induction tags) (auto split: jsval.splits)

lemma result_object_serializable:
  assumes "image_record item"
  shows "json_serializable (result_object cfg item)"
  using assms json_serializable_strings
  by (auto simp: image_record_def result_object_def split: jsval.splits)

lemma results_serializable:
  assumes "list_all image_record items"
  shows "json_serializable (JArr (map (result_object cfg) items))"
  using assms by (induction items) (simp_all add: result_object_serializable)

lemma list_all_filter_keep: "list_all P xs \<Longrightarrow> list_all P (filter Q xs)"
  by (induction xs) auto



lemma example_records: "list_all image_record (table example_world)"
  by (simp add: example_world_def image_record_def beach_item_def cat_item_def get_prop_def)

lemma example_serializable:
  "json_serializable (result_object example_config beach_item)"
  "json_serializable (result_object example_config cat_item)"
  using example_records by (simp_all add: example_world_def result_object_serializable)

lemma needle_example: "trim (toLowerCase '' BEACH '') = ''beach''"
  by (simp add: trim_def is_space_def toLowerCase_def lower_char_def char_of_def bit_Suc_0_iff Let_def)

lemma filter_example: "filter_items ''beach'' [beach_item, cat_item] = Inr [beach_item]"
  by (simp add: item_matches_def caption_match_def tags_match_def get_prop_def beach_item_def
      cat_item_def toLowerCase_def lower_char_def char_of_def bit_Suc_0_iff Let_def)

lemma example_page:
  "take (scan_page services_ok) (table example_world) = [beach_item, cat_item]"
  by (simp add: services_ok_def example_world_def)

lemma example_scan:
  "\<not> send_raises services_ok (ScanCommand (DYNAMODB_TABLE_NAME example_config))"
  "issue (ScanCommand (DYNAMODB_TABLE_NAME example_config)) example_world =
     \<lparr>objects = {''images/1-beach.png'', ''images/2-cat.png''},
      table = [beach_item, cat_item], calls = [ScanCommand ''images'']\<rparr>"
  by (simp_all add: services_ok_def issue_def example_world_def example_config_def)

lemma search_example:
  "search example_config services_ok (search_request (JStr '' BEACH '')) example_world =
     (\<lparr>status = 200, json = JArr [result_object example_config beach_item]\<rparr>,
      \<lparr>objects = {''images/1-beach.png'', ''images/2-cat.png''},
       table = [beach_item, cat_item], calls = [ScanCommand ''images'']\<rparr>)"
proof -
  have q: "req_q (search_request (JStr '' BEACH '')) = JStr '' BEACH ''"
    by (simp add: search_request_def)
  have nb: "trim '' BEACH '' \<noteq> []"
    by (simp add: trim_def is_space_def)
  have s: "send_results [result_object example_config beach_item] =
      \<lparr>status = 200, json = JArr [result_object example_config beach_item]\<rparr>"
    by (simp add: send_results_def example_serializable)
  show ?thesis
    unfolding search_filtered [OF example_scan(1) q nb] example_page needle_example
      filter_example example_scan(2)
    by (simp add: s)
qed


lemma spec_matches_example:
  "filter (spec_matches ''beach'') [beach_item, cat_item] = [beach_item]"
  by (simp add: spec_matches_def beach_item_def cat_item_def get_prop_def toLowerCase_def
      lower_char_def char_of_def bit_Suc_0_iff Let_def flip: str_includes_sublist)

text \<open>
  C1, as stated, for every state of the table.  It fails in two ways.  On a table that
  save-metadata itself produces: the request with the tags \<^verbatim>\<open>[7]\<close> is accepted (the tags
  are an array) and stored, its caption \<^verbatim>\<open>a\<close> contains the query \<^verbatim>\<open>a\<close>, so the claim wants
  the record returned; the filter calls \<^verbatim>\<open>toLowerCase\<close> on the number and the search
  answers with the status 500.  And on a table of two records of which the scan returns
  the first only: the search with no query returns one result object, not two.
\<close>

theorem search_counterexample:
  "save_metadata example_config services_ok 1700000000000
     (metadata_request ''images/3-a.png'' ''a'' [JNum 7]) empty_world =
     (\<lparr>status = 200,
       json = JObj [(''success'', JBool True), (''message'', JStr ''Metadata saved'')]\<rparr>,
      untyped_world)
   \<and> \<not> send_raises services_ok (ScanCommand (DYNAMODB_TABLE_NAME example_config))
   \<and> trim ''a'' \<noteq> []
   \<and> filter (spec_matches (trim (toLowerCase ''a''))) (table untyped_world) = [untyped_item]
   \<and> fst (search example_config services_ok (search_request (JStr ''a'')) untyped_world) =
       \<lparr>status = 500, json = JObj [(''error'', JStr ''Search failed'')]\<rparr>
   \<and> \<not> send_raises services_small_page (ScanCommand (DYNAMODB_TABLE_NAME example_config))
   \<and> table example_world = [beach_item, cat_item]
   \<and> fst (search example_config services_small_page (search_request JUndefined) example_world) =
       \<lparr>status = 200, json = JArr [result_object example_config beach_item]\<rparr>"
proof -
  have a: "save_metadata example_config services_ok 1700000000000
     (metadata_request ''images/3-a.png'' ''a'' [JNum 7]) empty_world =
     (\<lparr>status = 200,
       json = JObj [(''success'', JBool True), (''message'', JStr ''Metadata saved'')]\<rparr>,
      untyped_world)
   \<and> \<not> send_raises services_ok (ScanCommand (DYNAMODB_TABLE_NAME example_config))
   \<and> trim ''a'' \<noteq> []
   \<and> filter (spec_matches (trim (toLowerCase ''a''))) (table untyped_world) = [untyped_item]
   \<and> fst (search example_config services_ok (search_request (JStr ''a'')) untyped_world) =
       \<lparr>status = 500, json = JObj [(''error'', JStr ''Search failed'')]\<rparr>"
    by (simp add: save_metadata_def validationResult_def metadata_request_def metadata_item_def
        get_prop_def js_or_def empty_world_def untyped_world_def untyped_item_def issue_def
        services_ok_def example_config_def Let_def search_def search_request_def trim_def
        is_space_def toLowerCase_def lower_char_def char_of_def bit_Suc_0_iff item_matches_def
        caption_match_def tags_match_def spec_matches_def internal_error_def)
  have b: "\<not> send_raises services_small_page (ScanCommand (DYNAMODB_TABLE_NAME example_config))"
    by (simp add: services_small_page_def)
  have c: "table example_world = [beach_item, cat_item]"
    by (simp add: example_world_def)
  have q: "req_q (search_request JUndefined) = JUndefined \<or>
      (req_q (search_request JUndefined) = JStr [] \<and> trim [] = [])"
    by (simp add: search_request_def)
  have d: "fst (search example_config services_small_page (search_request JUndefined)
                  example_world) =
       \<lparr>status = 200, json = JArr [result_object example_config beach_item]\<rparr>"
    unfolding search_all [OF b q]
    by (simp add: services_small_page_def c send_results_def example_serializable)
  from a b c d show ?thesis by (intro conjI) simp_all
qed

text \<open>
  C1, amended: when the read of the table succeeds, the search works on the page the one
  scan returns, which is a prefix of the table in the order of the scan and the whole
  table when the table is no longer than the page.  If every record of the page is typed
  as in the data model (\<open>image_record\<close>), a search whose \<^verbatim>\<open>q\<close> is absent or blank returns
  one result object for every record of the page, in that order, and a search whose \<^verbatim>\<open>q\<close>
  is a string that is not blank returns exactly the result objects of the records of the
  page for which the lower-cased, trimmed \<^verbatim>\<open>q\<close> is a substring of the lower-cased caption
  or of some lower-cased tag.  On any table, these are the answers whenever the search
  answers with the status 200.
\<close>

theorem search_returns_matches:
  assumes "\<not> send_raises svc (ScanCommand (DYNAMODB_TABLE_NAME cfg))"
  shows "((req_q req = JUndefined \<or> (req_q req = JStr q \<and> trim q = [])) \<and>
          (list_all image_record (take (scan_page svc) (table w)) \<or>
           status (fst (search cfg svc req w)) = 200) \<longrightarrow>
            fst (search cfg svc req w) =
              \<lparr>status = 200,
               json = JArr (map (result_object cfg) (take (scan_page svc) (table w)))\<rparr>)
       \<and> (req_q req = JStr q \<and> trim q \<noteq> [] \<and>
            (list_all image_record (take (scan_page svc) (table w)) \<or>
             status (fst (search cfg svc req w)) = 200) \<longrightarrow>
            fst (search cfg svc req w) =
              \<lparr>status = 200,
               json = JArr (map (result_object cfg)
                              (filter (spec_matches (trim (toLowerCase q)))
                                 (take (scan_page svc) (table w))))\<rparr>)
       \<and> (length (table w) \<le> scan_page svc \<longrightarrow> take (scan_page svc) (table w) = table w)"
proof (intro conjI impI)
  let ?page = "take (scan_page svc) (table w)"
  assume a: "(req_q req = JUndefined \<or> (req_q req = JStr q \<and> trim q = [])) \<and>
    (list_all image_record ?page \<or> status (fst (search cfg svc req w)) = 200)"
  then have s: "fst (search cfg svc req w) = send_results (map (result_object cfg) ?page)"
    using search_all [OF assms, of req q w] by simp
  from a have "list_all image_record ?page \<or> status (fst (search cfg svc req w)) = 200"
    by simp
  then have "status (send_results (map (result_object cfg) ?page)) = 200"
  proof (elim disjE)
    assume "list_all image_record ?page"
    then have "json_serializable (JArr (map (result_object cfg) ?page))"
      by (rule results_serializable)
    then show ?thesis
      by (simp add: send_results_ok(1))
  qed (simp_all add: s)
  then show "fst (search cfg svc req w) =
      \<lparr>status = 200, json = JArr (map (result_object cfg) ?page)\<rparr>"
    by (simp add: s send_results_ok)
next
  let ?page = "take (scan_page svc) (table w)"
  let ?needle = "trim (toLowerCase q)"
  assume a: "req_q req = JStr q \<and> trim q \<noteq> [] \<and>
    (list_all image_record ?page \<or> status (fst (search cfg svc req w)) = 200)"
  then have q: "req_q req = JStr q" "trim q \<noteq> []" by simp_all
  then have needle: "?needle \<noteq> []" by (simp add: trim_toLowerCase_empty)
  note s = search_filtered [OF assms q, of w]
  from a have "\<exists>kept. filter_items ?needle ?page = Inr kept \<and>
      status (send_results (map (result_object cfg) kept)) = 200"
  proof (elim conjE disjE)
    assume r: "list_all image_record ?page"
    then obtain kept where k: "filter_items ?needle ?page = Inr kept"
      using filter_items_image_records by blast
    then have "kept = filter (spec_matches ?needle) ?page"
      using needle by (simp add: filter_items_spec)
    with r have "list_all image_record kept"
      by (simp add: list_all_filter_keep)
    then have "json_serializable (JArr (map (result_object cfg) kept))"
      by (rule results_serializable)
    then have "status (send_results (map (result_object cfg) kept)) = 200"
      by (simp add: send_results_ok(1))
    with k show ?thesis by blast
  next
    assume "status (fst (search cfg svc req w)) = 200"
    then show ?thesis
      by (cases "filter_items ?needle ?page") (simp_all add: s internal_error_def)
  qed
  then obtain kept where k: "filter_items ?needle ?page = Inr kept"
    and ok: "status (send_results (map (result_object cfg) kept)) = 200" by blast
  from k have "kept = filter (spec_matches ?needle) ?page"
    using needle by (simp add: filter_items_spec)
  with k ok show "fst (search cfg svc req w) =
      \<lparr>status = 200,
       json = JArr (map (result_object cfg) (filter (spec_matches ?needle) ?page))\<rparr>"
    by (simp add: s send_results_ok)
next
  assume "length (table w) \<le> scan_page svc"
  then show "take (scan_page svc) (table w) = table w" by simp
qed

lemma example_page_records:
  "list_all image_record (take (scan_page services_ok) (table example_world))"
  unfolding example_page
  by (simp add: image_record_def beach_item_def cat_item_def get_prop_def)

theorem search_returns_matches_witness:
  "\<not> send_raises services_ok (ScanCommand (DYNAMODB_TABLE_NAME example_config))
   \<and> req_q (search_request (JStr '' BEACH '')) = JStr '' BEACH ''
   \<and> trim '' BEACH '' \<noteq> []
   \<and> list_all image_record (take (scan_page services_ok) (table example_world))
   \<and> length (table example_world) \<le> scan_page services_ok
   \<and> take (scan_page services_ok) (table example_world) = table example_world
   \<and> fst (search example_config services_ok (search_request (JStr '' BEACH '')) example_world) =
       \<lparr>status = 200, json = JArr [result_object example_config beach_item]\<rparr>
   \<and> fst (search example_config services_ok (search_request JUndefined) example_world) =
       \<lparr>status = 200,
        json = JArr [result_object example_config beach_item,
                     result_object example_config cat_item]\<rparr>"
proof -
  let ?res = "\<lambda>q. fst (search example_config services_ok (search_request q) example_world)"
  let ?page = "take (scan_page services_ok) (table example_world)"
  have h1: "\<not> send_raises services_ok (ScanCommand (DYNAMODB_TABLE_NAME example_config))"
    by (rule example_scan)
  have h2: "req_q (search_request (JStr '' BEACH '')) = JStr '' BEACH ''"
    by (simp add: search_request_def)
  have h3: "trim '' BEACH '' \<noteq> []"
    by (simp add: trim_def is_space_def)
  have h4: "list_all image_record ?page"
    by (rule example_page_records)
  have h5: "req_q (search_request JUndefined) = JUndefined"
    by (simp add: search_request_def)
  have h6: "length (table example_world) \<le> scan_page services_ok"
    by (simp add: example_world_def services_ok_def)
  note T = search_returns_matches [OF h1]
  from T [where req = "search_request (JStr '' BEACH '')" and q = "'' BEACH ''"
      and w = example_world]
  have "req_q (search_request (JStr '' BEACH '')) = JStr '' BEACH '' \<and> trim '' BEACH '' \<noteq> [] \<and>
            (list_all image_record ?page \<or> status (?res (JStr '' BEACH '')) = 200) \<longrightarrow>
        ?res (JStr '' BEACH '') =
              \<lparr>status = 200,
               json = JArr (map (result_object example_config)
                     (filter (spec_matches (trim (toLowerCase '' BEACH ''))) ?page))\<rparr>"
    by (rule conjunct1 [OF conjunct2])
  with h2 h3 h4 have a: "?res (JStr '' BEACH '') =
      \<lparr>status = 200,
       json = JArr (map (result_object example_config)
               (filter (spec_matches (trim (toLowerCase '' BEACH ''))) ?page))\<rparr>"
    by blast
  from T [where req = "search_request JUndefined" and q = "[]" and w = example_world]
  have "(req_q (search_request JUndefined) = JUndefined \<or>
          (req_q (search_request JUndefined) = JStr [] \<and> trim [] = [])) \<and>
        (list_all image_record ?page \<or> status (?res JUndefined) = 200) \<longrightarrow>
        ?res JUndefined =
          \<lparr>status = 200, json = JArr (map (result_object example_config) ?page)\<rparr>"
    by (rule conjunct1)
  with h5 h4 have b: "?res JUndefined =
      \<lparr>status = 200, json = JArr (map (result_object example_config) ?page)\<rparr>"
    by blast
  from T [where req = "search_request JUndefined" and q = "[]" and w = example_world]
  have "length (table example_world) \<le> scan_page services_ok \<longrightarrow> ?page = table example_world"
    by (rule conjunct2 [OF conjunct2])
  with h6 have c: "?page = table example_world" by (rule mp [rotated])
  have a': "?res (JStr '' BEACH '') =
      \<lparr>status = 200, json = JArr [result_object example_config beach_item]\<rparr>"
  proof -
    have "map (result_object example_config)
            (filter (spec_matches (trim (toLowerCase '' BEACH ''))) ?page) =
          [result_object example_config beach_item]"
      by (simp only: needle_example example_page spec_matches_example list.map)
    with a show ?thesis by (simp only:)
  qed
  have b': "?res JUndefined =
      \<lparr>status = 200,
       json = JArr [result_object example_config beach_item,
                    result_object example_config cat_item]\<rparr>"
  proof -
    have "map (result_object example_config) ?page =
        [result_object example_config beach_item, result_object example_config cat_item]"
      by (simp only: example_page list.map)
    with b show ?thesis by (simp only:)
  qed
  from h1 h2 h3 h4 h6 c a' b' show ?thesis by (intro conjI)
qed



lemma get_prop_set_uploader:
  "name \<noteq> ''uploaderId'' \<Longrightarrow> get_prop (set_uploader u item) name = get_prop item name"
  by (simp add: get_prop_def set_uploader_def)

lemma caption_match_set_uploader:
  "caption_match needle (set_uploader u item) = caption_match needle item"
  by (simp add: caption_match_def get_prop_set_uploader)

lemma tags_match_set_uploader:
  "tags_match needle (set_uploader u item) = tags_match needle item"
  by (simp add: tags_match_def get_prop_set_uploader)

lemma item_matches_set_uploader:
  "item_matches needle (set_uploader u item) = item_matches needle item"
  unfolding item_matches_def caption_match_set_uploader tags_match_set_uploader ..

lemma result_object_set_uploader:
  "result_object cfg (set_uploader u item) = result_object cfg item"
  by (simp add: result_object_def get_prop_set_uploader)

lemma filter_items_set_uploader:
  "filter_items needle (map (set_uploader u) items) =
     (case filter_items needle items of
        Inl e \<Rightarrow> Inl e
      | Inr kept \<Rightarrow> Inr (map (set_uploader u) kept))"
  by (induction items) (auto simp: item_matches_set_uploader split: sum.splits)

lemma search_set_uploader:
  "fst (search cfg svc req (w\<lparr>table := map (set_uploader u) (table w)\<rparr>)) =
   fst (search cfg svc req w)"
  by (auto simp: search_def Let_def issue_def filter_items_set_uploader
      result_object_set_uploader comp_def take_map split: sum.splits jsval.splits)

lemma result_object_credentials:
  "result_object (cfg\<lparr>AWS_ACCESS_KEY_ID := a, AWS_SECRET_ACCESS_KEY := s\<rparr>) =
   result_object cfg"
  by (rule ext) (simp add: result_object_def)

lemma search_credentials:
  "search (cfg\<lparr>AWS_ACCESS_KEY_ID := a, AWS_SECRET_ACCESS_KEY := s\<rparr>) svc req w =
   search cfg svc req w"
  unfolding search_def result_object_credentials by simp

lemma filter_items_subset:
  "filter_items needle items = Inr kept \<Longrightarrow> set kept \<subseteq> set items"
  by (induction items arbitrary: kept) (auto split: sum.splits if_splits)

text \<open>
  C7: whenever a search answers with a list, in either branch, every element of the list
  is made from a stored record and consists of exactly the fields \<^verbatim>\<open>key\<close>, \<^verbatim>\<open>caption\<close>,
  \<^verbatim>\<open>tags\<close>, \<^verbatim>\<open>uploadTime\<close> and \<^verbatim>\<open>presignedGetUrl\<close>, the last being the string
  \<^verbatim>\<open>https://<bucket>.s3.<region>.amazonaws.com/<imageId>\<close> put together from the
  configuration and the record.  The answer is the same under any other storage
  credentials and with any other \<^verbatim>\<open>uploaderId\<close> in the stored records, so it carries
  neither; and the only call the search issues is the scan of the table, so no link is
  signed.
\<close>

theorem search_result_fields:
  assumes "search cfg svc req w = (r, w')" and "status r = 200"
  shows "(\<exists>kept. set kept \<subseteq> set (table w) \<and>
            json r = JArr (map (\<lambda>item.
              JObj [(''key'', get_prop item ''imageId''),
                    (''caption'', get_prop item ''caption''),
                    (''tags'', get_prop item ''tags''),
                    (''uploadTime'', get_prop item ''uploadTime''),
                    (''presignedGetUrl'',
                       JStr (''https://'' @ S3_BUCKET_NAME cfg @ ''.s3.'' @ AWS_REGION cfg
                             @ ''.amazonaws.com/'' @ js_toString (get_prop item ''imageId'')))])
              kept))
       \<and> fst (search (cfg\<lparr>AWS_ACCESS_KEY_ID := a, AWS_SECRET_ACCESS_KEY := s\<rparr>) svc req w) = r
       \<and> fst (search cfg svc req (w\<lparr>table := map (set_uploader u) (table w)\<rparr>)) = r
       \<and> calls w' = calls w @ [ScanCommand (DYNAMODB_TABLE_NAME cfg)]"
proof -
  have f: "result_object cfg = (\<lambda>item.
              JObj [(''key'', get_prop item ''imageId''),
                    (''caption'', get_prop item ''caption''),
                    (''tags'', get_prop item ''tags''),
                    (''uploadTime'', get_prop item ''uploadTime''),
                    (''presignedGetUrl'',
                       JStr (''https://'' @ S3_BUCKET_NAME cfg @ ''.s3.'' @ AWS_REGION cfg
                             @ ''.amazonaws.com/'' @ js_toString (get_prop item ''imageId'')))])"
    by (rule ext) (simp add: result_object_def)
  from search_ok_cases [OF assms]
  have "\<exists>kept. set kept \<subseteq> set (table w) \<and> json r = JArr (map (result_object cfg) kept)"
  proof (elim conjE disjE exE)
    let ?page = "take (scan_page svc) (table w)"
    assume "r = \<lparr>status = 200, json = JArr (map (result_object cfg) ?page)\<rparr>"
    then have "set ?page \<subseteq> set (table w) \<and> json r = JArr (map (result_object cfg) ?page)"
      by (simp add: set_take_subset)
    then show ?thesis ..
  next
    fix q kept
    let ?page = "take (scan_page svc) (table w)"
    assume "filter_items (trim (toLowerCase q)) ?page = Inr kept"
      and "r = \<lparr>status = 200, json = JArr (map (result_object cfg) kept)\<rparr>"
    then have "set kept \<subseteq> set (table w) \<and> json r = JArr (map (result_object cfg) kept)"
      using filter_items_subset [of "trim (toLowerCase q)" ?page kept]
        set_take_subset [of "scan_page svc" "table w"] by auto
    then show ?thesis ..
  qed
  then have "\<exists>kept. set kept \<subseteq> set (table w) \<and>
            json r = JArr (map (\<lambda>item.
              JObj [(''key'', get_prop item ''imageId''),
                    (''caption'', get_prop item ''caption''),
                    (''tags'', get_prop item ''tags''),
                    (''uploadTime'', get_prop item ''uploadTime''),
                    (''presignedGetUrl'',
                       JStr (''https://'' @ S3_BUCKET_NAME cfg @ ''.s3.'' @ AWS_REGION cfg
                             @ ''.amazonaws.com/'' @ js_toString (get_prop item ''imageId'')))])
              kept)"
    by (simp only: f)
  moreover have "fst (search (cfg\<lparr>AWS_ACCESS_KEY_ID := a, AWS_SECRET_ACCESS_KEY := s\<rparr>) svc req w) = r"
    using assms(1) by (simp add: search_credentials)
  moreover have "fst (search cfg svc req (w\<lparr>table := map (set_uploader u) (table w)\<rparr>)) = r"
    using assms(1) by (simp add: search_set_uploader)
  moreover have "calls w' = calls w @ [ScanCommand (DYNAMODB_TABLE_NAME cfg)]"
    using search_ok_cases [OF assms] by (simp add: issue_def)
  ultimately show ?thesis by (intro conjI)
qed

theorem search_result_fields_witness:
  "search example_config services_ok (search_request (JStr '' BEACH '')) example_world =
     (\<lparr>status = 200, json = JArr [result_object example_config beach_item]\<rparr>,
      \<lparr>objects = {''images/1-beach.png'', ''images/2-cat.png''},
       table = [beach_item, cat_item], calls = [ScanCommand ''images'']\<rparr>)
   \<and> result_object example_config beach_item =
       JObj [(''key'', JStr ''images/1-beach.png''), (''caption'', JStr ''Sunset at the Beach''),
             (''tags'', JArr [JStr ''sea'']), (''uploadTime'', JNum 1),
             (''presignedGetUrl'',
                JStr ''https://vault.s3.eu-west-1.amazonaws.com/images/1-beach.png'')]
   \<and> fst (search (example_config\<lparr>AWS_ACCESS_KEY_ID := ''other'',
                                   AWS_SECRET_ACCESS_KEY := ''other''\<rparr>)
            services_ok (search_request (JStr '' BEACH '')) example_world) =
       \<lparr>status = 200, json = JArr [result_object example_config beach_item]\<rparr>
   \<and> fst (search example_config services_ok (search_request (JStr '' BEACH ''))
            (example_world\<lparr>table := map (set_uploader (JStr ''198.51.100.1''))
                                        (table example_world)\<rparr>)) =
       \<lparr>status = 200, json = JArr [result_object example_config beach_item]\<rparr>"
proof -
  let ?r = "\<lparr>status = 200, json = JArr [result_object example_config beach_item]\<rparr>"
  have h2: "status ?r = 200" by simp
  note T = search_result_fields [OF search_example h2,
      of "''other''" "''other''" "JStr ''198.51.100.1''"]
  from T have b: "fst (search (example_config\<lparr>AWS_ACCESS_KEY_ID := ''other'',
                                   AWS_SECRET_ACCESS_KEY := ''other''\<rparr>)
            services_ok (search_request (JStr '' BEACH '')) example_world) = ?r"
    by (rule conjunct1 [OF conjunct2])
  from T have c: "fst (search example_config services_ok (search_request (JStr '' BEACH ''))
            (example_world\<lparr>table := map (set_uploader (JStr ''198.51.100.1''))
                                        (table example_world)\<rparr>)) = ?r"
    by (rule conjunct1 [OF conjunct2 [OF conjunct2]])
  have d: "result_object example_config beach_item =
       JObj [(''key'', JStr ''images/1-beach.png''), (''caption'', JStr ''Sunset at the Beach''),
             (''tags'', JArr [JStr ''sea'']), (''uploadTime'', JNum 1),
             (''presignedGetUrl'',
                JStr ''https://vault.s3.eu-west-1.amazonaws.com/images/1-beach.png'')]"
    by (simp add: result_object_def example_config_def beach_item_def get_prop_def)
  from search_example d b c show ?thesis by (intro conjI)
qed

section \<open>Recording metadata\<close>

lemma put_item_find:
  "find (\<lambda>i. get_prop i ''imageId'' = get_prop it ''imageId'') (put_item it tbl) = Some it"
  by (induction tbl) auto

lemma put_item_filter:
  assumes "distinct (map (\<lambda>i. get_prop i ''imageId'') tbl)"
  shows "filter (\<lambda>i. get_prop i ''imageId'' = get_prop it ''imageId'') (put_item it tbl) = [it]"
  using assms
proof (induction tbl)
  case Nil
  then show ?case by simp
next
  case (Cons x xs)
  have "filter (\<lambda>i. get_prop i ''imageId'' = k) xs = []"
    if "k \<notin> set (map (\<lambda>i. get_prop i ''imageId'') xs)" for k
    using that by (induction xs) auto
  with Cons show ?case by auto
qed

lemma put_item_keys:
  "set (map (\<lambda>i. get_prop i ''imageId'') (put_item it tbl)) =
   insert (get_prop it ''imageId'') (set (map (\<lambda>i. get_prop i ''imageId'') tbl))"
  by (induction tbl) auto

lemma put_item_distinct:
  assumes "distinct (map (\<lambda>i. get_prop i ''imageId'') tbl)"
  shows "distinct (map (\<lambda>i. get_prop i ''imageId'') (put_item it tbl))"
  using assms
proof (induction tbl)
  case Nil
  then show ?case by simp
next
  case (Cons x xs)
  then show ?case using put_item_keys [of it xs] by auto
qed

lemma put_item_set: "set (put_item it tbl) \<subseteq> insert it (set tbl)"
  by (induction tbl) auto

lemma put_item_other:
  "get_prop x ''imageId'' \<noteq> get_prop it ''imageId'' \<Longrightarrow>
   x \<in> set (put_item it tbl) \<longleftrightarrow> x \<in> set tbl"
  by (induction tbl) auto

lemma validation_metadata:
  "validationResult
     [(''key'', [IsString, NotEmpty], False), (''caption'', [IsString], True),
      (''tags'', [IsArray], True)] b = [] \<longleftrightarrow> valid_metadata b"
  by (cases "get_prop b ''key''"; cases "get_prop b ''caption''"; cases "get_prop b ''tags''")
     (simp_all add: validationResult_def valid_metadata_def nonempty_string_def Let_def)

lemma metadata_item_valid:
  assumes "valid_metadata (req_body req)"
  shows "metadata_item now req = stored_record now req"
  using assms
  by (auto simp: valid_metadata_def metadata_item_def stored_record_def js_or_def
      split: jsval.splits)

lemma save_ok_cases:
  assumes "save_metadata cfg svc now req w = (r, w')" and "status r = 200"
  shows "valid_metadata (req_body req) \<and> marshallable (JObj (metadata_item now req)) \<and>
         \<not> send_raises svc (PutItemCommand (DYNAMODB_TABLE_NAME cfg) (metadata_item now req)) \<and>
         w' = w\<lparr>table := put_item (metadata_item now req) (table w),
                calls := calls w @ [PutItemCommand (DYNAMODB_TABLE_NAME cfg) (metadata_item now req)]\<rparr>"
  using assms validation_metadata [of "req_body req"]
  by (auto simp: save_metadata_def Let_def issue_def internal_error_def validation_failure_def
      split: if_splits)

lemma save_succeeds:
  assumes "valid_metadata (req_body req)" and "marshallable (JObj (metadata_item now req))"
    and "\<not> send_raises svc (PutItemCommand (DYNAMODB_TABLE_NAME cfg) (metadata_item now req))"
  shows "save_metadata cfg svc now req w =
     (\<lparr>status = 200,
       json = JObj [(''success'', JBool True), (''message'', JStr ''Metadata saved'')]\<rparr>,
      w\<lparr>table := put_item (metadata_item now req) (table w),
        calls := calls w @ [PutItemCommand (DYNAMODB_TABLE_NAME cfg) (metadata_item now req)]\<rparr>)"
  using assms validation_metadata [of "req_body req"]
  by (auto simp: save_metadata_def Let_def issue_def)

text \<open>
  C6: whenever save-metadata answers with success, the key \<open>k\<close> of the request is a
  non-empty string and the table then holds, as the record for \<open>k\<close>, the record with
  \<^verbatim>\<open>imageId\<close> \<open>k\<close>, the caption of the request or the empty string when it has none, the
  tags of the request or the empty sequence when it has none, the \<^verbatim>\<open>uploadTime\<close> \<open>now\<close> and
  the caller's address as \<^verbatim>\<open>uploaderId\<close>.  A valid request is answered with success when
  that record can be marshalled and the put does not raise.
\<close>

theorem stored_record_fields:
  "(status (fst (save_metadata cfg svc now req w)) = 200 \<longrightarrow>
      (\<exists>k. get_prop (req_body req) ''key'' = JStr k \<and> k \<noteq> [] \<and>
         find (\<lambda>i. get_prop i ''imageId'' = JStr k) (table (snd (save_metadata cfg svc now req w))) =
           Some [(''imageId'', JStr k),
                 (''caption'',
                    if get_prop (req_body req) ''caption'' = JUndefined then JStr []
                    else get_prop (req_body req) ''caption''),
                 (''tags'',
                    if get_prop (req_body req) ''tags'' = JUndefined then JArr []
                    else get_prop (req_body req) ''tags''),
                 (''uploadTime'', JNum (int now)),
                 (''uploaderId'', req_ip req)]))
   \<and> (valid_metadata (req_body req) \<and> marshallable (JObj (stored_record now req)) \<and>
       \<not> send_raises svc (PutItemCommand (DYNAMODB_TABLE_NAME cfg) (stored_record now req)) \<longrightarrow>
         status (fst (save_metadata cfg svc now req w)) = 200)"
proof (intro conjI impI)
  let ?res = "save_metadata cfg svc now req w"
  assume "status (fst ?res) = 200"
  with save_ok_cases [of cfg svc now req w "fst ?res" "snd ?res"]
  have v: "valid_metadata (req_body req)"
    and w': "snd ?res = w\<lparr>table := put_item (metadata_item now req) (table w),
                calls := calls w @ [PutItemCommand (DYNAMODB_TABLE_NAME cfg) (metadata_item now req)]\<rparr>"
    by simp_all
  from v obtain k where k: "get_prop (req_body req) ''key'' = JStr k" "k \<noteq> []"
    by (auto simp: valid_metadata_def nonempty_string_def split: jsval.splits)
  have i: "get_prop (metadata_item now req) ''imageId'' = JStr k"
    using k by (simp add: metadata_item_def get_prop_def)
  have "find (\<lambda>i. get_prop i ''imageId'' = JStr k) (table (snd ?res)) = Some (metadata_item now req)"
    using put_item_find [of "metadata_item now req" "table w"] by (simp add: w' i)
  then have "find (\<lambda>i. get_prop i ''imageId'' = JStr k) (table (snd ?res)) =
           Some [(''imageId'', JStr k),
                 (''caption'',
                    if get_prop (req_body req) ''caption'' = JUndefined then JStr []
                    else get_prop (req_body req) ''caption''),
                 (''tags'',
                    if get_prop (req_body req) ''tags'' = JUndefined then JArr []
                    else get_prop (req_body req) ''tags''),
                 (''uploadTime'', JNum (int now)),
                 (''uploaderId'', req_ip req)]"
    by (simp add: metadata_item_valid [OF v] stored_record_def k)
  with k show "\<exists>k. get_prop (req_body req) ''key'' = JStr k \<and> k \<noteq> [] \<and>
         find (\<lambda>i. get_prop i ''imageId'' = JStr k) (table (snd ?res)) =
           Some [(''imageId'', JStr k),
                 (''caption'',
                    if get_prop (req_body req) ''caption'' = JUndefined then JStr []
                    else get_prop (req_body req) ''caption''),
                 (''tags'',
                    if get_prop (req_body req) ''tags'' = JUndefined then JArr []
                    else get_prop (req_body req) ''tags''),
                 (''uploadTime'', JNum (int now)),
                 (''uploaderId'', req_ip req)]"
    by blast
next
  assume a: "valid_metadata (req_body req) \<and> marshallable (JObj (stored_record now req)) \<and>
       \<not> send_raises svc (PutItemCommand (DYNAMODB_TABLE_NAME cfg) (stored_record now req))"
  then have "metadata_item now req = stored_record now req"
    by (simp add: metadata_item_valid)
  with a show "status (fst (save_metadata cfg svc now req w)) = 200"
    by (simp add: save_succeeds)
qed

lemma key_only_example:
  "save_metadata example_config services_ok 1700000000000
     (key_only_request ''images/1-beach.png'') empty_world =
   (\<lparr>status = 200,
     json = JObj [(''success'', JBool True), (''message'', JStr ''Metadata saved'')]\<rparr>,
    \<lparr>objects = {},
     table = [[(''imageId'', JStr ''images/1-beach.png''), (''caption'', JStr []),
               (''tags'', JArr []), (''uploadTime'', JNum 1700000000000),
               (''uploaderId'', JStr ''203.0.113.7'')]],
     calls = [PutItemCommand ''images''
               [(''imageId'', JStr ''images/1-beach.png''), (''caption'', JStr []),
                (''tags'', JArr []), (''uploadTime'', JNum 1700000000000),
                (''uploaderId'', JStr ''203.0.113.7'')]]\<rparr>)"
  by (simp add: save_metadata_def validationResult_def key_only_request_def metadata_item_def
      get_prop_def js_or_def empty_world_def issue_def services_ok_def example_config_def Let_def)

theorem stored_record_fields_witness:
  "status (fst (save_metadata example_config services_ok 1700000000000
                  (key_only_request ''images/1-beach.png'') empty_world)) = 200
   \<and> find (\<lambda>i. get_prop i ''imageId'' = JStr ''images/1-beach.png'')
         (table (snd (save_metadata example_config services_ok 1700000000000
                        (key_only_request ''images/1-beach.png'') empty_world))) =
       Some [(''imageId'', JStr ''images/1-beach.png''), (''caption'', JStr []),
             (''tags'', JArr []), (''uploadTime'', JNum 1700000000000),
             (''uploaderId'', JStr ''203.0.113.7'')]"
proof -
  let ?req = "key_only_request ''images/1-beach.png''"
  let ?res = "save_metadata example_config services_ok 1700000000000 ?req empty_world"
  have s: "status (fst ?res) = 200" by (simp add: key_only_example)
  have "status (fst ?res) = 200 \<longrightarrow>
      (\<exists>k. get_prop (req_body ?req) ''key'' = JStr k \<and> k \<noteq> [] \<and>
         find (\<lambda>i. get_prop i ''imageId'' = JStr k) (table (snd ?res)) =
           Some [(''imageId'', JStr k),
                 (''caption'',
                    if get_prop (req_body ?req) ''caption'' = JUndefined then JStr []
                    else get_prop (req_body ?req) ''caption''),
                 (''tags'',
                    if get_prop (req_body ?req) ''tags'' = JUndefined then JArr []
                    else get_prop (req_body ?req) ''tags''),
                 (''uploadTime'', JNum (int 1700000000000)),
                 (''uploaderId'', req_ip ?req)])"
    using stored_record_fields [of example_config services_ok 1700000000000 ?req empty_world]
    by (rule conjunct1)
  from this s obtain k where k: "get_prop (req_body ?req) ''key'' = JStr k"
    and f: "find (\<lambda>i. get_prop i ''imageId'' = JStr k) (table (snd ?res)) =
           Some [(''imageId'', JStr k),
                 (''caption'',
                    if get_prop (req_body ?req) ''caption'' = JUndefined then JStr []
                    else get_prop (req_body ?req) ''caption''),
                 (''tags'',
                    if get_prop (req_body ?req) ''tags'' = JUndefined then JArr []
                    else get_prop (req_body ?req) ''tags''),
                 (''uploadTime'', JNum (int 1700000000000)),
                 (''uploaderId'', req_ip ?req)]"
    by blast
  from k have "k = ''images/1-beach.png''"
    by (simp add: key_only_request_def get_prop_def)
  with f have "find (\<lambda>i. get_prop i ''imageId'' = JStr ''images/1-beach.png'') (table (snd ?res)) =
       Some [(''imageId'', JStr ''images/1-beach.png''), (''caption'', JStr []),
             (''tags'', JArr []), (''uploadTime'', JNum 1700000000000),
             (''uploaderId'', JStr ''203.0.113.7'')]"
    by (simp add: key_only_request_def get_prop_def)
  with s show ?thesis by (intro conjI)
qed

text \<open>
  C3: on a table that holds at most one record for each key, when two save-metadata
  requests with the same key \<open>k\<close> are answered with success one after the other, whatever
  their captions, the table then holds exactly one record for \<open>k\<close>, and it is the record
  of the second request alone: its caption and tags (or their defaults), its time and its
  caller.  Nothing of the first write is kept.
\<close>

theorem second_write_wins:
  assumes "distinct (map (\<lambda>i. get_prop i ''imageId'') (table w))"
    and "get_prop (req_body req1) ''key'' = JStr k"
    and "get_prop (req_body req2) ''key'' = JStr k"
    and "save_metadata cfg svc1 t1 req1 w = (r1, w1)" and "status r1 = 200"
    and "save_metadata cfg svc2 t2 req2 w1 = (r2, w2)" and "status r2 = 200"
  shows "filter (\<lambda>i. get_prop i ''imageId'' = JStr k) (table w2) =
           [[(''imageId'', JStr k),
             (''caption'',
                if get_prop (req_body req2) ''caption'' = JUndefined then JStr []
                else get_prop (req_body req2) ''caption''),
             (''tags'',
                if get_prop (req_body req2) ''tags'' = JUndefined then JArr []
                else get_prop (req_body req2) ''tags''),
             (''uploadTime'', JNum (int t2)),
             (''uploaderId'', req_ip req2)]]"
proof -
  let ?key = "\<lambda>i. get_prop i ''imageId''"
  from save_ok_cases [OF assms(4,5)]
  have w1: "table w1 = put_item (metadata_item t1 req1) (table w)" by simp
  from save_ok_cases [OF assms(6,7)]
  have v2: "valid_metadata (req_body req2)"
    and w2: "table w2 = put_item (metadata_item t2 req2) (table w1)" by simp_all
  have d: "distinct (map ?key (table w1))"
    unfolding w1 using assms(1) by (rule put_item_distinct)
  have i: "?key (metadata_item t2 req2) = JStr k"
    using assms(3) by (simp add: metadata_item_def get_prop_def)
  have "filter (\<lambda>i. ?key i = JStr k) (table w2) = [metadata_item t2 req2]"
    using put_item_filter [OF d, of "metadata_item t2 req2"] by (simp add: w2 i)
  then show ?thesis
    by (simp add: metadata_item_valid [OF v2] stored_record_def assms(3))
qed

lemma two_writes_example:
  "save_metadata example_config services_ok 1700000000000 first_write empty_world =
     (\<lparr>status = 200,
       json = JObj [(''success'', JBool True), (''message'', JStr ''Metadata saved'')]\<rparr>,
      \<lparr>objects = {},
       table = [[(''imageId'', JStr ''images/1-beach.png''), (''caption'', JStr ''first caption''),
                 (''tags'', JArr [JStr ''sea'']), (''uploadTime'', JNum 1700000000000),
                 (''uploaderId'', JStr ''203.0.113.7'')]],
       calls = [PutItemCommand ''images''
                 [(''imageId'', JStr ''images/1-beach.png''), (''caption'', JStr ''first caption''),
                  (''tags'', JArr [JStr ''sea'']), (''uploadTime'', JNum 1700000000000),
                  (''uploaderId'', JStr ''203.0.113.7'')]]\<rparr>)"
  "status (fst (save_metadata example_config services_ok 1700000000500 second_write
     (snd (save_metadata example_config services_ok 1700000000000 first_write empty_world)))) = 200"
  by (simp_all add: save_metadata_def validationResult_def first_write_def second_write_def
      metadata_request_def metadata_item_def get_prop_def js_or_def empty_world_def issue_def
      services_ok_def example_config_def Let_def)

theorem second_write_wins_witness:
  "distinct (map (\<lambda>i. get_prop i ''imageId'') (table empty_world))
   \<and> get_prop (req_body first_write) ''key'' = JStr ''images/1-beach.png''
   \<and> get_prop (req_body second_write) ''key'' = JStr ''images/1-beach.png''
   \<and> get_prop (req_body first_write) ''caption'' \<noteq> get_prop (req_body second_write) ''caption''
   \<and> filter (\<lambda>i. get_prop i ''imageId'' = JStr ''images/1-beach.png'')
        (table (snd (save_metadata example_config services_ok 1700000000500 second_write
           (snd (save_metadata example_config services_ok 1700000000000 first_write
                   empty_world))))) =
       [[(''imageId'', JStr ''images/1-beach.png''), (''caption'', JStr ''second caption''),
         (''tags'', JArr []), (''uploadTime'', JNum 1700000000500),
         (''uploaderId'', JStr ''198.51.100.1'')]]"
proof -
  let ?one = "save_metadata example_config services_ok 1700000000000 first_write empty_world"
  let ?two = "save_metadata example_config services_ok 1700000000500 second_write (snd ?one)"
  have h1: "distinct (map (\<lambda>i. get_prop i ''imageId'') (table empty_world))"
    by (simp add: empty_world_def)
  have h2: "get_prop (req_body first_write) ''key'' = JStr ''images/1-beach.png''"
    by (simp add: first_write_def metadata_request_def get_prop_def)
  have h3: "get_prop (req_body second_write) ''key'' = JStr ''images/1-beach.png''"
    by (simp add: second_write_def get_prop_def)
  have h4: "?one = (fst ?one, snd ?one)" by simp
  have h5: "status (fst ?one) = 200" by (simp add: two_writes_example)
  have h6: "?two = (fst ?two, snd ?two)" by simp
  have h7: "status (fst ?two) = 200" by (rule two_writes_example)
  have c: "get_prop (req_body first_write) ''caption'' \<noteq> get_prop (req_body second_write) ''caption''"
    by (simp add: first_write_def second_write_def metadata_request_def get_prop_def)
  have "filter (\<lambda>i. get_prop i ''imageId'' = JStr ''images/1-beach.png'') (table (snd ?two)) =
       [[(''imageId'', JStr ''images/1-beach.png''), (''caption'', JStr ''second caption''),
         (''tags'', JArr []), (''uploadTime'', JNum 1700000000500),
         (''uploaderId'', JStr ''198.51.100.1'')]]"
    using second_write_wins [OF h1 h2 h3 h4 h5 h6 h7]
    by (simp add: second_write_def get_prop_def)
  with h1 h2 h3 c show ?thesis by (intro conjI)
qed

section \<open>Every route\<close>

lemma generate_table: "table (snd (generate_presigned_url cfg svc now req w)) = table w"
  by (auto simp: generate_presigned_url_def Let_def issue_def split: jsval.splits sum.splits)

lemma search_table: "table (snd (search cfg svc req w)) = table w"
  by (simp add: search_snd issue_def)

lemma save_table:
  "table (snd (save_metadata cfg svc now req w)) = table w \<or>
   table (snd (save_metadata cfg svc now req w)) = put_item (metadata_item now req) (table w)"
  by (auto simp: save_metadata_def Let_def issue_def)

lemma delete_table:
  "set (table (snd (delete_image cfg svc req w))) \<subseteq> set (table w)"
  by (auto simp: delete_image_def Let_def issue_def delete_item_def)

text \<open>
  A table holds at most one record for each key.  The empty table does, and every route
  keeps it so.
\<close>

lemma delete_table_cases:
  "table (snd (delete_image cfg svc req w)) = table w \<or>
   table (snd (delete_image cfg svc req w)) =
     delete_item (get_prop (req_body req) ''key'') (table w)"
  by (auto simp: delete_image_def Let_def issue_def)

lemma handle_distinct:
  assumes "distinct (map (\<lambda>i. get_prop i ''imageId'') (table w))"
  shows "distinct (map (\<lambda>i. get_prop i ''imageId'')
           (table (snd (handle cfg svc now route req w))))"
proof (cases route)
  case GeneratePresignedUrl
  with assms show ?thesis by (simp add: generate_table)
next
  case SaveMetadata
  with assms save_table [of cfg svc now req w]
    put_item_distinct [of "table w" "metadata_item now req"]
  show ?thesis by auto
next
  case Search
  with assms show ?thesis by (simp add: search_table)
next
  case DeleteImage
  with assms delete_table_cases [of cfg svc req w]
  show ?thesis by (auto simp: delete_item_def distinct_map_filter)
qed

lemma save_reads_three_fields:
  assumes "get_prop b ''key'' = get_prop (req_body req) ''key''"
    and "get_prop b ''caption'' = get_prop (req_body req) ''caption''"
    and "get_prop b ''tags'' = get_prop (req_body req) ''tags''"
  shows "save_metadata cfg svc now (req\<lparr>req_body := b\<rparr>) w = save_metadata cfg svc now req w"
  using assms by (simp add: save_metadata_def validationResult_def metadata_item_def)

text \<open>
  C10: the record save-metadata puts has exactly the five fields \<^verbatim>\<open>imageId\<close>,
  \<^verbatim>\<open>caption\<close>, \<^verbatim>\<open>tags\<close>, \<^verbatim>\<open>uploadTime\<close> and \<^verbatim>\<open>uploaderId\<close>; a body that agrees with the
  request's on \<^verbatim>\<open>key\<close>, \<^verbatim>\<open>caption\<close> and \<^verbatim>\<open>tags\<close> leads to the same answer and the same
  world, so no other property of the body is written.  After any route, every record of
  the table is a record that was there before, unchanged, or is the whole record that
  save-metadata has just put: no route changes a field of a stored record.
\<close>

theorem records_written_whole:
  assumes "handle cfg svc now route req w = (r, w')"
  shows "(\<forall>item \<in> set (table w').
            item \<in> set (table w) \<or> (route = SaveMetadata \<and> item = metadata_item now req))
       \<and> map fst (metadata_item now req) =
            [''imageId'', ''caption'', ''tags'', ''uploadTime'', ''uploaderId'']
       \<and> (get_prop b ''key'' = get_prop (req_body req) ''key'' \<and>
           get_prop b ''caption'' = get_prop (req_body req) ''caption'' \<and>
           get_prop b ''tags'' = get_prop (req_body req) ''tags'' \<longrightarrow>
             save_metadata cfg svc now (req\<lparr>req_body := b\<rparr>) w = save_metadata cfg svc now req w)"
proof (intro conjI impI ballI)
  fix item
  assume i: "item \<in> set (table w')"
  from assms have w': "w' = snd (handle cfg svc now route req w)" by simp
  show "item \<in> set (table w) \<or> (route = SaveMetadata \<and> item = metadata_item now req)"
  proof (cases route)
    case GeneratePresignedUrl
    with i w' show ?thesis by (simp add: generate_table)
  next
    case SaveMetadata
    with i w' save_table [of cfg svc now req w]
      put_item_set [of "metadata_item now req" "table w"]
    show ?thesis by auto
  next
    case Search
    with i w' show ?thesis by (simp add: search_table)
  next
    case DeleteImage
    with i w' delete_table [of cfg svc req w] show ?thesis by auto
  qed
next
  show "map fst (metadata_item now req) =
      [''imageId'', ''caption'', ''tags'', ''uploadTime'', ''uploaderId'']"
    by (simp add: metadata_item_def)
next
  assume "get_prop b ''key'' = get_prop (req_body req) ''key'' \<and>
          get_prop b ''caption'' = get_prop (req_body req) ''caption'' \<and>
          get_prop b ''tags'' = get_prop (req_body req) ''tags''"
  then show "save_metadata cfg svc now (req\<lparr>req_body := b\<rparr>) w = save_metadata cfg svc now req w"
    by (simp add: save_reads_three_fields)
qed

lemma overwrite_example:
  "handle example_config services_ok 1700000000500 SaveMetadata second_write example_world =
     (\<lparr>status = 200,
       json = JObj [(''success'', JBool True), (''message'', JStr ''Metadata saved'')]\<rparr>,
      \<lparr>objects = {''images/1-beach.png'', ''images/2-cat.png''},
       table = [metadata_item 1700000000500 second_write, cat_item],
       calls = [PutItemCommand ''images'' (metadata_item 1700000000500 second_write)]\<rparr>)"
proof -
  have v: "valid_metadata (req_body second_write)"
    by (simp add: valid_metadata_def second_write_def get_prop_def nonempty_string_def)
  have m: "marshallable (JObj (metadata_item 1700000000500 second_write))"
    by (simp add: metadata_item_def second_write_def get_prop_def js_or_def)
  have r: "\<not> send_raises services_ok
      (PutItemCommand (DYNAMODB_TABLE_NAME example_config) (metadata_item 1700000000500 second_write))"
    by (simp add: services_ok_def)
  have p: "put_item (metadata_item 1700000000500 second_write) [beach_item, cat_item] =
      [metadata_item 1700000000500 second_write, cat_item]"
    by (simp add: metadata_item_def second_write_def beach_item_def get_prop_def)
  show ?thesis
    unfolding handle.simps save_succeeds [OF v m r]
    by (simp only: example_world_def world.simps p) (simp add: example_config_def)
qed

theorem records_written_whole_witness:
  "table (snd (handle example_config services_ok 1700000000500 SaveMetadata second_write
                 example_world)) =
     [metadata_item 1700000000500 second_write, cat_item]
   \<and> table example_world = [beach_item, cat_item]
   \<and> metadata_item 1700000000500 second_write =
       [(''imageId'', JStr ''images/1-beach.png''), (''caption'', JStr ''second caption''),
        (''tags'', JArr []), (''uploadTime'', JNum 1700000000500),
        (''uploaderId'', JStr ''198.51.100.1'')]
   \<and> map fst (metadata_item 1700000000500 second_write) =
       [''imageId'', ''caption'', ''tags'', ''uploadTime'', ''uploaderId'']
   \<and> save_metadata example_config services_ok 1700000000500
        (second_write\<lparr>req_body := (''owner'', JStr ''me'') # req_body second_write\<rparr>)
        example_world =
       save_metadata example_config services_ok 1700000000500 second_write example_world"
proof -
  let ?b = "(''owner'', JStr ''me'') # req_body second_write"
  note T = records_written_whole [OF overwrite_example, of ?b]
  have a: "table (snd (handle example_config services_ok 1700000000500 SaveMetadata second_write
                 example_world)) = [metadata_item 1700000000500 second_write, cat_item]"
    by (simp only: overwrite_example snd_conv world.simps)
  have b: "table example_world = [beach_item, cat_item]"
    by (simp add: example_world_def)
  have c: "metadata_item 1700000000500 second_write =
       [(''imageId'', JStr ''images/1-beach.png''), (''caption'', JStr ''second caption''),
        (''tags'', JArr []), (''uploadTime'', JNum 1700000000500),
        (''uploaderId'', JStr ''198.51.100.1'')]"
    by (simp add: metadata_item_def second_write_def get_prop_def js_or_def)
  from T have d: "map fst (metadata_item 1700000000500 second_write) =
       [''imageId'', ''caption'', ''tags'', ''uploadTime'', ''uploaderId'']"
    by (rule conjunct1 [OF conjunct2])
  from T have "get_prop ?b ''key'' = get_prop (req_body second_write) ''key'' \<and>
           get_prop ?b ''caption'' = get_prop (req_body second_write) ''caption'' \<and>
           get_prop ?b ''tags'' = get_prop (req_body second_write) ''tags'' \<longrightarrow>
             save_metadata example_config services_ok 1700000000500
               (second_write\<lparr>req_body := ?b\<rparr>) example_world =
             save_metadata example_config services_ok 1700000000500 second_write example_world"
    by (rule conjunct2 [OF conjunct2])
  moreover have "get_prop ?b ''key'' = get_prop (req_body second_write) ''key'' \<and>
           get_prop ?b ''caption'' = get_prop (req_body second_write) ''caption'' \<and>
           get_prop ?b ''tags'' = get_prop (req_body second_write) ''tags''"
    by (simp add: get_prop_def)
  ultimately have e: "save_metadata example_config services_ok 1700000000500
               (second_write\<lparr>req_body := ?b\<rparr>) example_world =
             save_metadata example_config services_ok 1700000000500 second_write example_world"
    by (rule mp)
  from a b c d e show ?thesis by (intro conjI)
qed

section \<open>Removing an object\<close>

lemma delete_valid:
  assumes "get_prop (req_body req) ''key'' = JStr k" and "k \<noteq> []"
  shows "delete_image cfg svc req w =
     (if send_raises svc (DeleteObjectCommand (S3_BUCKET_NAME cfg) (JStr k))
      then (internal_error ''Failed to delete image'',
            w\<lparr>calls := calls w @ [DeleteObjectCommand (S3_BUCKET_NAME cfg) (JStr k)]\<rparr>)
      else if send_raises svc (DeleteItemCommand (DYNAMODB_TABLE_NAME cfg) [(''imageId'', JStr k)])
      then (internal_error ''Failed to delete image'',
            w\<lparr>objects := objects w - {k},
              calls := calls w @ [DeleteObjectCommand (S3_BUCKET_NAME cfg) (JStr k),
                                  DeleteItemCommand (DYNAMODB_TABLE_NAME cfg) [(''imageId'', JStr k)]]\<rparr>)
      else (\<lparr>status = 200,
              json = JObj [(''success'', JBool True), (''message'', JStr ''Image deleted'')]\<rparr>,
            w\<lparr>objects := objects w - {k},
              table := delete_item (JStr k) (table w),
              calls := calls w @ [DeleteObjectCommand (S3_BUCKET_NAME cfg) (JStr k),
                                  DeleteItemCommand (DYNAMODB_TABLE_NAME cfg) [(''imageId'', JStr k)]]\<rparr>))"
  using assms
  by (simp add: delete_image_def validationResult_def Let_def issue_def delete_object_def)

text \<open>
  C5: for a request with the non-empty key \<open>k\<close>, the handler first asks the object store
  to delete \<open>k\<close>.  If that raises, it answers with the status 500 and issues nothing else.
  Otherwise the object is gone and it asks the table to delete the record of \<open>k\<close>; if that
  raises, it answers with the status 500, the table is as before (a record for \<open>k\<close>
  remains) and the object is not restored: the trace holds the two deletes and no
  compensating call.  If neither raises, it answers with success and the record is gone.
\<close>

theorem delete_order_no_rollback:
  assumes "get_prop (req_body req) ''key'' = JStr k" and "k \<noteq> []"
    and "delete_image cfg svc req w = (r, w')"
  shows "(send_raises svc (DeleteObjectCommand (S3_BUCKET_NAME cfg) (JStr k)) \<longrightarrow>
            status r = 500 \<and>
            calls w' = calls w @ [DeleteObjectCommand (S3_BUCKET_NAME cfg) (JStr k)] \<and>
            objects w' = objects w \<and> table w' = table w)
       \<and> (\<not> send_raises svc (DeleteObjectCommand (S3_BUCKET_NAME cfg) (JStr k)) \<longrightarrow>
            calls w' = calls w @
              [DeleteObjectCommand (S3_BUCKET_NAME cfg) (JStr k),
               DeleteItemCommand (DYNAMODB_TABLE_NAME cfg) [(''imageId'', JStr k)]] \<and>
            objects w' = objects w - {k} \<and>
            (send_raises svc (DeleteItemCommand (DYNAMODB_TABLE_NAME cfg) [(''imageId'', JStr k)]) \<longrightarrow>
               status r = 500 \<and> table w' = table w) \<and>
            (\<not> send_raises svc (DeleteItemCommand (DYNAMODB_TABLE_NAME cfg) [(''imageId'', JStr k)]) \<longrightarrow>
               status r = 200 \<and>
               table w' = filter (\<lambda>i. get_prop i ''imageId'' \<noteq> JStr k) (table w)))"
  using assms(3) delete_valid [OF assms(1,2), of cfg svc w]
  by (auto simp: internal_error_def delete_item_def split: if_splits)

theorem delete_order_no_rollback_witness:
  "get_prop (req_body (delete_request ''images/1-beach.png'')) ''key'' = JStr ''images/1-beach.png''
   \<and> \<not> send_raises services_table_down
         (DeleteObjectCommand (S3_BUCKET_NAME example_config) (JStr ''images/1-beach.png''))
   \<and> send_raises services_table_down
         (DeleteItemCommand (DYNAMODB_TABLE_NAME example_config)
            [(''imageId'', JStr ''images/1-beach.png'')])
   \<and> status (fst (delete_image example_config services_table_down
                    (delete_request ''images/1-beach.png'') example_world)) = 500
   \<and> snd (delete_image example_config services_table_down
            (delete_request ''images/1-beach.png'') example_world) =
       \<lparr>objects = {''images/2-cat.png''}, table = [beach_item, cat_item],
        calls = [DeleteObjectCommand ''vault'' (JStr ''images/1-beach.png''),
                 DeleteItemCommand ''images'' [(''imageId'', JStr ''images/1-beach.png'')]]\<rparr>
   \<and> send_raises services_store_down
         (DeleteObjectCommand (S3_BUCKET_NAME example_config) (JStr ''images/1-beach.png''))
   \<and> status (fst (delete_image example_config services_store_down
                    (delete_request ''images/1-beach.png'') example_world)) = 500
   \<and> snd (delete_image example_config services_store_down
            (delete_request ''images/1-beach.png'') example_world) =
       \<lparr>objects = {''images/1-beach.png'', ''images/2-cat.png''}, table = [beach_item, cat_item],
        calls = [DeleteObjectCommand ''vault'' (JStr ''images/1-beach.png'')]\<rparr>
   \<and> status (fst (delete_image example_config services_ok
                    (delete_request ''images/1-beach.png'') example_world)) = 200
   \<and> snd (delete_image example_config services_ok
            (delete_request ''images/1-beach.png'') example_world) =
       \<lparr>objects = {''images/2-cat.png''}, table = [cat_item],
        calls = [DeleteObjectCommand ''vault'' (JStr ''images/1-beach.png''),
                 DeleteItemCommand ''images'' [(''imageId'', JStr ''images/1-beach.png'')]]\<rparr>"
proof -
  let ?req = "delete_request ''images/1-beach.png''"
  let ?res = "\<lambda>svc. delete_image example_config svc ?req example_world"
  have h1: "get_prop (req_body ?req) ''key'' = JStr ''images/1-beach.png''"
    by (simp add: delete_request_def get_prop_def)
  have h2: "''images/1-beach.png'' \<noteq> []" by simp
  have h3: "?res svc = (fst (?res svc), snd (?res svc))" for svc by simp
  note T = delete_order_no_rollback [OF h1 h2 h3]
  have o: "objects example_world - {''images/1-beach.png''} = {''images/2-cat.png''}"
    by (auto simp: example_world_def)
  have f: "filter (\<lambda>i. get_prop i ''imageId'' \<noteq> JStr ''images/1-beach.png'') (table example_world)
      = [cat_item]"
    by (simp add: example_world_def beach_item_def cat_item_def get_prop_def)
  have a1: "\<not> send_raises services_table_down
         (DeleteObjectCommand (S3_BUCKET_NAME example_config) (JStr ''images/1-beach.png''))"
    and a2: "send_raises services_table_down
         (DeleteItemCommand (DYNAMODB_TABLE_NAME example_config)
            [(''imageId'', JStr ''images/1-beach.png'')])"
    and a3: "send_raises services_store_down
         (DeleteObjectCommand (S3_BUCKET_NAME example_config) (JStr ''images/1-beach.png''))"
    and a4: "\<not> send_raises services_ok
         (DeleteObjectCommand (S3_BUCKET_NAME example_config) (JStr ''images/1-beach.png''))"
    and a5: "\<not> send_raises services_ok
         (DeleteItemCommand (DYNAMODB_TABLE_NAME example_config)
            [(''imageId'', JStr ''images/1-beach.png'')])"
    by (simp_all add: services_table_down_def services_store_down_def services_ok_def)
  have c: "S3_BUCKET_NAME example_config = ''vault''" "DYNAMODB_TABLE_NAME example_config = ''images''"
    by (simp_all add: example_config_def)
  have b1: "status (fst (?res services_table_down)) = 500"
    and b2: "snd (?res services_table_down) =
       \<lparr>objects = {''images/2-cat.png''}, table = [beach_item, cat_item],
        calls = [DeleteObjectCommand ''vault'' (JStr ''images/1-beach.png''),
                 DeleteItemCommand ''images'' [(''imageId'', JStr ''images/1-beach.png'')]]\<rparr>"
    using T [of services_table_down] a1 a2 o
    by (simp_all add: c example_world_def world.equality)
  have b3: "status (fst (?res services_store_down)) = 500"
    and b4: "snd (?res services_store_down) =
       \<lparr>objects = {''images/1-beach.png'', ''images/2-cat.png''}, table = [beach_item, cat_item],
        calls = [DeleteObjectCommand ''vault'' (JStr ''images/1-beach.png'')]\<rparr>"
    using T [of services_store_down] a3
    by (simp_all add: c example_world_def world.equality)
  have b5: "status (fst (?res services_ok)) = 200"
    and b6: "snd (?res services_ok) =
       \<lparr>objects = {''images/2-cat.png''}, table = [cat_item],
        calls = [DeleteObjectCommand ''vault'' (JStr ''images/1-beach.png''),
                 DeleteItemCommand ''images'' [(''imageId'', JStr ''images/1-beach.png'')]]\<rparr>"
    using T [of services_ok] a4 a5 o f
    by (simp_all add: c example_world_def world.equality)
  from h1 a1 a2 b1 b2 a3 b3 b4 b5 b6 show ?thesis by (intro conjI)
qed

end
